theory Spec2Isabelle
  imports Complex_Main "HOL-Library.AList" "HOL-Library.Sublist"
begin

section \<open>JavaScript values\<close>

text \<open>
  The server is untyped: request bodies, stored records and file contents are whatever
  JSON they were parsed from. A value is therefore a \<open>jsval\<close>. Numbers are exact
  rationals: the rounding and the overflow of IEEE doubles are left out (integers below
  \<open>2^53\<close> are exact in both). Strings are lists of 8-bit characters. \<open>JNative n\<close> is
  the built-in function or object that every plain object inherits from
  \<open>Object.prototype\<close> under the name \<open>n\<close>. An object is the list of its own
  properties; their order is not observable by this program.

  The model follows the server that keeps its data in files (the first program of
  \<open>src/server.js\<close>). The in-memory servers have neither \<open>authenticate\<close> nor
  \<open>saveData\<close> nor filters; of their handlers that create or update a record only
  \<open>POST /api/classifieds\<close> stores something else, and it is modelled as
  \<open>post_classifieds_mem\<close>.
\<close>

datatype jsval =
    JUndefined
  | JNull
  | JBool bool
  | JNum rat
  | JStr string
  | JArr "jsval list"
  | JObj "(string \<times> jsval) list"
  | JNative string

text \<open>The result of a numeric conversion: \<open>parseInt\<close>, \<open>parseFloat\<close>, \<open>ToNumber\<close>.\<close>

datatype jsnum = NaN | NegInf | Fin rat | PosInf

datatype error = TypeError | SyntaxError | ENOENT | EACCES

text \<open>\<open>!v\<close> is \<open>\<not> truthy v\<close>; \<open>a || b\<close> is \<open>js_or a b\<close>.\<close>

fun truthy :: "jsval \<Rightarrow> bool" where
  "truthy JUndefined = False"
| "truthy JNull = False"
| "truthy (JBool b) = b"
| "truthy (JNum x) = (x \<noteq> 0)"
| "truthy (JStr s) = (s \<noteq> [])"
| "truthy (JArr xs) = True"
| "truthy (JObj kvs) = True"
| "truthy (JNative n) = True"

definition js_or :: "jsval \<Rightarrow> jsval \<Rightarrow> jsval" where
  "js_or a b = (if truthy a then a else b)"

text \<open>\<open>typeof v !== 'undefined'\<close>\<close>

fun defined :: "jsval \<Rightarrow> bool" where
  "defined JUndefined = False"
| "defined v = True"

text \<open>
  Property read \<open>v.k\<close>, for the keys this program reads (\<open>id\<close>, \<open>title\<close>, \<open>nextId\<close>,
  \<open>items\<close>, \<open>username\<close>, ...), none of which is defined on a built-in prototype: reading
  from \<open>null\<close> or \<open>undefined\<close> throws a TypeError (\<open>None\<close>), an object answers with its
  own property, everything else with \<open>undefined\<close>.
\<close>

fun getprop :: "jsval \<Rightarrow> string \<Rightarrow> jsval option" where
  "getprop JUndefined k = None"
| "getprop JNull k = None"
| "getprop (JObj kvs) k = Some (case map_of kvs k of None \<Rightarrow> JUndefined | Some v \<Rightarrow> v)"
| "getprop v k = Some JUndefined"

text \<open>
  The same read where the receiver is known not to be \<open>null\<close> or \<open>undefined\<close>:
  \<open>req.body\<close> (body-parser leaves an object or an array there), a record found by its
  \<open>id\<close>, \<open>req.user\<close> after authentication.
\<close>

definition get :: "jsval \<Rightarrow> string \<Rightarrow> jsval" where
  "get v k = (case getprop v k of None \<Rightarrow> JUndefined | Some x \<Rightarrow> x)"

text \<open>Assignment \<open>v.k = x\<close> on an object: the property is overwritten in place, or added.\<close>

fun assign :: "jsval \<Rightarrow> string \<Rightarrow> jsval \<Rightarrow> jsval" where
  "assign (JObj kvs) k x = JObj (AList.update k x kvs)"
| "assign v k x = v"

text \<open>
  Strict equality \<open>a === b\<close> of two values that are not the same reference (a stored
  value and one read from a fresh request): primitives compare by value, arrays and
  objects are never equal.
\<close>

fun strict_eq :: "jsval \<Rightarrow> jsval \<Rightarrow> bool" where
  "strict_eq JUndefined JUndefined = True"
| "strict_eq JNull JNull = True"
| "strict_eq (JBool a) (JBool b) = (a = b)"
| "strict_eq (JNum a) (JNum b) = (a = b)"
| "strict_eq (JStr a) (JStr b) = (a = b)"
| "strict_eq a b = False"

text \<open>\<open>v === n\<close> for a number \<open>n\<close> that may be NaN (which equals nothing).\<close>

fun strict_eq_num :: "jsval \<Rightarrow> jsnum \<Rightarrow> bool" where
  "strict_eq_num (JNum x) (Fin y) = (x = y)"
| "strict_eq_num v n = False"

subsection \<open>Strings and numeric conversions\<close>

definition lower_char :: "char \<Rightarrow> char" where
  "lower_char c =
     (case map_of (zip ''ABCDEFGHIJKLMNOPQRSTUVWXYZ'' ''abcdefghijklmnopqrstuvwxyz'') c of
        None \<Rightarrow> c | Some d \<Rightarrow> d)"

text \<open>\<open>String.prototype.toLowerCase\<close>, on ASCII text: the letters \<open>A\<close> to \<open>Z\<close> are
  lowered, every other character stays.\<close>

definition toLowerCase :: "string \<Rightarrow> string" where
  "toLowerCase s = map lower_char s"

fun startsWith :: "string \<Rightarrow> string \<Rightarrow> bool" where
  "startsWith s [] = True"
| "startsWith [] (c # t) = False"
| "startsWith (d # s) (c # t) = (d = c \<and> startsWith s t)"

text \<open>\<open>s.includes(t)\<close>\<close>

fun str_includes :: "string \<Rightarrow> string \<Rightarrow> bool" where
  "str_includes [] t = (t = [])"
| "str_includes (d # s) t = (startsWith (d # s) t \<or> str_includes s t)"

definition digit_val :: "char \<Rightarrow> nat option" where
  "digit_val c = map_of (zip ''0123456789'' [0 ..< 10]) c"

definition hex_val :: "char \<Rightarrow> nat option" where
  "hex_val c =
     map_of (zip ''0123456789abcdefABCDEF'' ([0 ..< 16] @ [10 ..< 16])) c"

definition is_space :: "char \<Rightarrow> bool" where
  "is_space c = (c \<in> set [CHR 0x09, CHR 0x0A, CHR 0x0B, CHR 0x0C, CHR 0x0D, CHR '' ''])"

text \<open>The longest run of digits (in the given digit table) at the front, its value, its
  length and the rest.\<close>

fun digits_from :: "(char \<Rightarrow> nat option) \<Rightarrow> nat \<Rightarrow> nat \<Rightarrow> nat \<Rightarrow> string \<Rightarrow> nat \<times> nat \<times> string" where
  "digits_from dv b acc n [] = (acc, n, [])"
| "digits_from dv b acc n (c # s) =
     (case dv c of
        None \<Rightarrow> (acc, n, c # s)
      | Some d \<Rightarrow> digits_from dv b (b * acc + d) (Suc n) s)"

definition digits :: "string \<Rightarrow> nat \<times> nat \<times> string" where
  "digits s = digits_from digit_val 10 0 0 s"

text \<open>An optional sign: \<open>True\<close> for \<open>-\<close>.\<close>

fun sign :: "string \<Rightarrow> bool \<times> string" where
  "sign [] = (False, [])"
| "sign (c # s) =
     (if c = CHR ''-'' then (True, s) else if c = CHR ''+'' then (False, s)
      else (False, c # s))"

text \<open>
  \<open>parseInt(s, 10)\<close>: leading white space, an optional sign, then the longest run of
  decimal digits; NaN when there is none.
\<close>

definition parseInt :: "string \<Rightarrow> jsnum" where
  "parseInt s =
     (let (neg, t) = sign (dropWhile is_space s); (v, n, r) = digits t
      in if n = 0 then NaN else Fin (if neg then - of_nat v else of_nat v))"

text \<open>The exponent part \<open>e\<close>, \<open>e+\<close>, \<open>e-\<close> followed by digits, when there is one.\<close>

definition exponent :: "string \<Rightarrow> (int \<times> string) option" where
  "exponent s =
     (case s of
        [] \<Rightarrow> None
      | c # t \<Rightarrow>
          if c = CHR ''e'' \<or> c = CHR ''E'' then
            (let (neg, u) = sign t; (v, n, r) = digits u
             in if n = 0 then None else Some (if neg then - int v else int v, r))
          else None)"

definition scale :: "rat \<Rightarrow> int \<Rightarrow> rat" where
  "scale x e = (if 0 \<le> e then x * 10 ^ nat e else x / 10 ^ nat (- e))"

text \<open>
  The longest prefix that is an unsigned decimal literal (\<open>Infinity\<close>, \<open>12\<close>, \<open>12.\<close>,
  \<open>12.5\<close>, \<open>.5\<close>, each but the first with an optional exponent), its value and the rest.
\<close>

definition unsigned_decimal :: "string \<Rightarrow> (jsnum \<times> string) option" where
  "unsigned_decimal s =
     (if startsWith s ''Infinity'' then Some (PosInf, drop 8 s)
      else
        let (iv, il, r) = digits s;
            (fv, fl, r') = (case r of
                              c # t \<Rightarrow> if c = CHR ''.'' then digits t else (0, 0, r)
                            | [] \<Rightarrow> (0, 0, r));
            dot = (case r of c # t \<Rightarrow> c = CHR ''.'' | [] \<Rightarrow> False);
            r'' = (if dot \<and> (il \<noteq> 0 \<or> fl \<noteq> 0) then r' else r)
        in if il = 0 \<and> (\<not> dot \<or> fl = 0) then None
           else
             let m = of_nat iv + (if dot then of_nat fv / 10 ^ fl else 0)
             in (case exponent r'' of
                   None \<Rightarrow> Some (Fin m, r'')
                 | Some (e, r3) \<Rightarrow> Some (Fin (scale m e), r3)))"

fun negate :: "jsnum \<Rightarrow> jsnum" where
  "negate NaN = NaN"
| "negate NegInf = PosInf"
| "negate (Fin x) = Fin (- x)"
| "negate PosInf = NegInf"

definition decimal :: "string \<Rightarrow> (jsnum \<times> string) option" where
  "decimal s =
     (let (neg, t) = sign s
      in case unsigned_decimal t of
           None \<Rightarrow> None
         | Some (x, r) \<Rightarrow> Some (if neg then negate x else x, r))"

text \<open>\<open>parseFloat(s)\<close>: leading white space, then the longest decimal literal.\<close>

definition parseFloat :: "string \<Rightarrow> jsnum" where
  "parseFloat s = (case decimal (dropWhile is_space s) of None \<Rightarrow> NaN | Some (x, r) \<Rightarrow> x)"

definition isNaN :: "jsnum \<Rightarrow> bool" where
  "isNaN x = (x = NaN)"

definition trim :: "string \<Rightarrow> string" where
  "trim s = rev (dropWhile is_space (rev (dropWhile is_space s)))"

definition radix_literal :: "(char \<Rightarrow> nat option) \<Rightarrow> nat \<Rightarrow> string \<Rightarrow> jsnum" where
  "radix_literal dv b s =
     (let (v, n, r) = digits_from dv b 0 0 s
      in if n \<noteq> 0 \<and> r = [] then Fin (of_nat v) else NaN)"

text \<open>
  \<open>Number(s)\<close> for a string: white space is trimmed, the empty string is 0, and the
  whole of the rest has to be one numeric literal (decimal, or \<open>0x\<close>, \<open>0o\<close>, \<open>0b\<close>).
\<close>

definition StringToNumber :: "string \<Rightarrow> jsnum" where
  "StringToNumber s =
     (let t = trim s
      in if t = [] then Fin 0
         else if startsWith t ''0x'' \<or> startsWith t ''0X'' then radix_literal hex_val 16 (drop 2 t)
         else if startsWith t ''0o'' \<or> startsWith t ''0O''
           then radix_literal (\<lambda>c. if c \<in> set ''01234567'' then digit_val c else None) 8 (drop 2 t)
         else if startsWith t ''0b'' \<or> startsWith t ''0B''
           then radix_literal (\<lambda>c. if c \<in> set ''01'' then digit_val c else None) 2 (drop 2 t)
         else (case decimal t of
                 Some (x, []) \<Rightarrow> x
               | _ \<Rightarrow> NaN))"

text \<open>
  \<open>ToNumber\<close>, as the relational operators apply it. An array is first turned into the
  string that joins its elements with commas, so only the empty array and an array of
  one element can be a number.
\<close>

fun ToNumber :: "jsval \<Rightarrow> jsnum" where
  "ToNumber JUndefined = NaN"
| "ToNumber JNull = Fin 0"
| "ToNumber (JBool b) = Fin (if b then 1 else 0)"
| "ToNumber (JNum x) = Fin x"
| "ToNumber (JStr s) = StringToNumber s"
| "ToNumber (JObj kvs) = NaN"
| "ToNumber (JNative n) = NaN"
| "ToNumber (JArr []) = Fin 0"
| "ToNumber (JArr [JUndefined]) = Fin 0"
| "ToNumber (JArr [JNull]) = Fin 0"
| "ToNumber (JArr [JNum x]) = Fin x"
| "ToNumber (JArr [JStr s]) = StringToNumber s"
| "ToNumber (JArr [JArr xs]) = ToNumber (JArr xs)"
| "ToNumber (JArr xs) = NaN"

text \<open>\<open>a >= b\<close> on numbers: false as soon as one side is NaN.\<close>

fun num_ge :: "jsnum \<Rightarrow> jsnum \<Rightarrow> bool" where
  "num_ge NaN b = False"
| "num_ge a NaN = False"
| "num_ge PosInf b = True"
| "num_ge a NegInf = True"
| "num_ge NegInf b = False"
| "num_ge a PosInf = False"
| "num_ge (Fin x) (Fin y) = (y \<le> x)"

text \<open>\<open>v >= n\<close> for a value \<open>v\<close> and a number \<open>n\<close>.\<close>

definition js_ge :: "jsval \<Rightarrow> jsnum \<Rightarrow> bool" where
  "js_ge v n = num_ge (ToNumber v) n"

section \<open>Collections\<close>

text \<open>
  \<open>xs.findIndex(p)\<close> for a callback that may throw: \<open>Inr None\<close> is the result \<open>-1\<close>.
\<close>

fun findIndex :: "(jsval \<Rightarrow> error + bool) \<Rightarrow> jsval list \<Rightarrow> error + nat option" where
  "findIndex p [] = Inr None"
| "findIndex p (x # xs) =
     (case p x of
        Inl e \<Rightarrow> Inl e
      | Inr True \<Rightarrow> Inr (Some 0)
      | Inr False \<Rightarrow>
          (case findIndex p xs of
             Inl e \<Rightarrow> Inl e
           | Inr None \<Rightarrow> Inr None
           | Inr (Some i) \<Rightarrow> Inr (Some (Suc i))))"

text \<open>
  \<open>xs.find(p)\<close> returns a reference to the first element that satisfies \<open>p\<close>: here the
  element together with its position, through which the handlers update it in place.
\<close>

definition find_js :: "(jsval \<Rightarrow> error + bool) \<Rightarrow> jsval list \<Rightarrow> error + (nat \<times> jsval) option" where
  "find_js p xs =
     (case findIndex p xs of
        Inl e \<Rightarrow> Inl e
      | Inr None \<Rightarrow> Inr None
      | Inr (Some i) \<Rightarrow> Inr (Some (i, xs ! i)))"

text \<open>\<open>xs.filter(p)\<close> for a callback that may throw.\<close>

fun filter_js :: "(jsval \<Rightarrow> error + bool) \<Rightarrow> jsval list \<Rightarrow> error + jsval list" where
  "filter_js p [] = Inr []"
| "filter_js p (x # xs) =
     (case p x of
        Inl e \<Rightarrow> Inl e
      | Inr b \<Rightarrow>
          (case filter_js p xs of
             Inl e \<Rightarrow> Inl e
           | Inr ys \<Rightarrow> Inr (if b then x # ys else ys)))"

text \<open>\<open>xs.splice(i, 1)\<close>\<close>

definition splice1 :: "nat \<Rightarrow> 'a list \<Rightarrow> 'a list" where
  "splice1 i xs = take i xs @ drop (Suc i) xs"

text \<open>The callback \<open>a => a.id === id\<close>.\<close>

definition has_id :: "jsnum \<Rightarrow> jsval \<Rightarrow> error + bool" where
  "has_id n a =
     (case getprop a ''id'' of
        None \<Rightarrow> Inl TypeError
      | Some v \<Rightarrow> Inr (strict_eq_num v n))"

section \<open>Persistence\<close>

text \<open>
  What \<open>JSON.parse (JSON.stringify v)\<close> returns: a property whose value is \<open>undefined\<close>
  or a function is left out, such an array element becomes \<open>null\<close>. \<open>None\<close> is the
  result \<open>undefined\<close>.
\<close>

fun jsonify :: "jsval \<Rightarrow> jsval option"
  and jsonify_elems :: "jsval list \<Rightarrow> jsval list"
  and jsonify_props :: "(string \<times> jsval) list \<Rightarrow> (string \<times> jsval) list" where
  "jsonify JUndefined = None"
| "jsonify (JNative n) = (if n = ''__proto__'' then Some (JObj []) else None)"
| "jsonify JNull = Some JNull"
| "jsonify (JBool b) = Some (JBool b)"
| "jsonify (JNum x) = Some (JNum x)"
| "jsonify (JStr s) = Some (JStr s)"
| "jsonify (JArr xs) = Some (JArr (jsonify_elems xs))"
| "jsonify (JObj kvs) = Some (JObj (jsonify_props kvs))"
| "jsonify_elems [] = []"
| "jsonify_elems (x # xs) = (case jsonify x of None \<Rightarrow> JNull | Some y \<Rightarrow> y) # jsonify_elems xs"
| "jsonify_props [] = []"
| "jsonify_props (kv # kvs) =
     (case jsonify (snd kv) of
        None \<Rightarrow> jsonify_props kvs
      | Some y \<Rightarrow> (fst kv, y) # jsonify_props kvs)"

text \<open>A JSON value: no \<open>undefined\<close> and no function inside.\<close>

fun is_json :: "jsval \<Rightarrow> bool"
  and are_json :: "jsval list \<Rightarrow> bool"
  and props_json :: "(string \<times> jsval) list \<Rightarrow> bool" where
  "is_json JUndefined = False"
| "is_json (JNative n) = False"
| "is_json JNull = True"
| "is_json (JBool b) = True"
| "is_json (JNum x) = True"
| "is_json (JStr s) = True"
| "is_json (JArr xs) = are_json xs"
| "is_json (JObj kvs) = props_json kvs"
| "are_json [] = True"
| "are_json (x # xs) = (is_json x \<and> are_json xs)"
| "props_json [] = True"
| "props_json (kv # kvs) = (is_json (snd kv) \<and> props_json kvs)"

text \<open>
  A text is known by what \<open>JSON.parse\<close> makes of it: the value it parses to, or a
  syntax error. \<open>JSON.stringify\<close> of an object is a text that parses to the object's
  JSON form. A file is missing (no entry on the disk), unreadable, or holds a text.
  Writes are taken to succeed.
\<close>

datatype content = Parses jsval | Malformed

datatype fsentry = Readable content | Unreadable

type_synonym disk = "string \<Rightarrow> fsentry option"

definition readFileSync :: "disk \<Rightarrow> string \<Rightarrow> error + content" where
  "readFileSync d filePath =
     (case d filePath of
        None \<Rightarrow> Inl ENOENT
      | Some Unreadable \<Rightarrow> Inl EACCES
      | Some (Readable t) \<Rightarrow> Inr t)"

definition writeFileSync :: "disk \<Rightarrow> string \<Rightarrow> content \<Rightarrow> disk" where
  "writeFileSync d filePath t = d(filePath \<mapsto> Readable t)"

fun JSON_parse :: "content \<Rightarrow> error + jsval" where
  "JSON_parse (Parses v) = Inr v"
| "JSON_parse Malformed = Inl SyntaxError"

definition JSON_stringify :: "(string \<times> jsval) list \<Rightarrow> content" where
  "JSON_stringify kvs = Parses (JObj (jsonify_props kvs))"

record data =
  nextId :: jsval
  items :: jsval

text \<open>The body of the \<open>try\<close> block of \<open>loadData\<close>, with what it throws.\<close>

definition loadData_try :: "disk \<Rightarrow> string \<Rightarrow> data \<Rightarrow> error + data" where
  "loadData_try d fileName defaults =
     (case readFileSync d fileName of
        Inl e \<Rightarrow> Inl e
      | Inr raw \<Rightarrow>
          (case JSON_parse raw of
             Inl e \<Rightarrow> Inl e
           | Inr parsed \<Rightarrow>
               (case getprop parsed ''nextId'' of
                  None \<Rightarrow> Inl TypeError
                | Some n \<Rightarrow>
                    (case getprop parsed ''items'' of
                       None \<Rightarrow> Inl TypeError
                     | Some its \<Rightarrow>
                         Inr \<lparr>nextId = js_or n (nextId defaults),
                              items = js_or its (items defaults)\<rparr>))))"

text \<open>\<open>loadData\<close>: the \<open>catch\<close> block answers every error with the defaults.\<close>

definition loadData :: "disk \<Rightarrow> string \<Rightarrow> data \<Rightarrow> data" where
  "loadData d fileName defaults =
     (case loadData_try d fileName defaults of
        Inr loaded \<Rightarrow> loaded
      | Inl err \<Rightarrow> \<lparr>nextId = nextId defaults, items = items defaults\<rparr>)"

definition saveData :: "string \<Rightarrow> data \<Rightarrow> disk \<Rightarrow> disk" where
  "saveData fileName dat d =
     writeFileSync d fileName
       (JSON_stringify [(''nextId'', nextId dat), (''items'', items dat)])"

section \<open>The server\<close>

text \<open>
  What a handler reads from a request, together with what it reads from the
  environment while it runs: the clock (\<open>new Date().toISOString()\<close>) and the random
  generator (\<open>crypto.randomBytes(16).toString('hex')\<close>). \<open>authorization\<close> is the
  header, \<open>None\<close> when the request has none. \<open>body\<close> is what body-parser leaves in
  \<open>req.body\<close>: the parsed JSON object or array, the empty object when there is no body.
  \<open>id_param\<close> is \<open>req.params.id\<close>. A query parameter is one string (repeated and nested
  parameters, which the framework would turn into arrays and objects, are left out).
\<close>

record request =
  authorization :: "string option"
  body :: jsval
  id_param :: string
  query :: "string \<Rightarrow> string option"
  now :: string
  randomHex :: string

record response =
  status :: nat
  payload :: jsval

text \<open>
  The module's variables and the data directory. The counters are numbers and the
  collections are arrays.
\<close>

record server =
  sessions :: "string \<Rightarrow> jsval option"
  usersData_nextId :: jsval
  users :: "jsval list"
  nextAdId :: rat
  classifieds :: "jsval list"
  nextVacancyId :: rat
  vacancies :: "jsval list"
  nextCompanyId :: rat
  companies :: "jsval list"
  nextPropertyId :: rat
  realEstate :: "jsval list"
  files :: disk

definition message :: "string \<Rightarrow> jsval" where
  "message m = JObj [(''message'', JStr m)]"

text \<open>\<open>res.status(n).json(v)\<close>, and \<open>res.json(v)\<close> with the status 200.\<close>

definition reply :: "nat \<Rightarrow> jsval \<Rightarrow> response" where
  "reply n v = \<lparr>status = n, payload = v\<rparr>"

text \<open>An exception that leaves a handler: the framework's error handler answers 500,
  without JSON. Every handler throws, if at all, before it changes anything.\<close>

definition uncaught :: "error \<Rightarrow> response" where
  "uncaught e = \<lparr>status = 500, payload = JUndefined\<rparr>"

subsection \<open>Sessions\<close>

text \<open>
  \<open>sessions\<close> is a plain object (\<open>const sessions = {}\<close>), so \<open>sessions[token]\<close> finds
  the object's own properties first and then the properties of \<open>Object.prototype\<close>.
\<close>

definition object_prototype_names :: "string list" where
  "object_prototype_names =
     [''constructor'', ''__defineGetter__'', ''__defineSetter__'', ''hasOwnProperty'',
      ''__lookupGetter__'', ''__lookupSetter__'', ''isPrototypeOf'',
      ''propertyIsEnumerable'', ''toString'', ''valueOf'', ''__proto__'',
      ''toLocaleString'']"

definition sessions_at :: "(string \<Rightarrow> jsval option) \<Rightarrow> string \<Rightarrow> jsval" where
  "sessions_at ss token =
     (case ss token of
        Some u \<Rightarrow> u
      | None \<Rightarrow> if token \<in> set object_prototype_names then JNative token else JUndefined)"

text \<open>
  The middleware \<open>authenticate\<close>: \<open>Inl\<close> is the response it sends itself, \<open>Inr\<close> the
  value it leaves in \<open>req.user\<close> before it calls \<open>next()\<close>. An absent header is
  \<open>undefined\<close>, an empty one the empty string: both are falsy.
\<close>

definition authenticate :: "request \<Rightarrow> server \<Rightarrow> response + jsval" where
  "authenticate req s =
     (case authorization req of
        None \<Rightarrow> Inl (reply 401 (message ''Unauthorized''))
      | Some token \<Rightarrow>
          if token = [] \<or> \<not> truthy (sessions_at (sessions s) token)
          then Inl (reply 401 (message ''Unauthorized''))
          else Inr (sessions_at (sessions s) token))"

subsection \<open>Users\<close>

definition register :: "request \<Rightarrow> server \<Rightarrow> response \<times> server" where
  "register req s =
     (let username = get (body req) ''username'';
          password = get (body req) ''password'';
          role = get (body req) ''role''
      in if \<not> truthy username \<or> \<not> truthy password
         then (reply 400 (message ''Missing username or password''), s)
         else
           (case find_js (\<lambda>u. case getprop u ''username'' of
                                 None \<Rightarrow> Inl TypeError
                               | Some n \<Rightarrow> Inr (strict_eq n username)) (users s) of
              Inl e \<Rightarrow> (uncaught e, s)
            | Inr found \<Rightarrow>
                if (case found of None \<Rightarrow> False | Some (i, u) \<Rightarrow> truthy u)
                then (reply 409 (message ''User already exists''), s)
                else
                  (let s1 = s\<lparr>users := users s @
                             [JObj [(''username'', username), (''password'', password),
                                    (''role'', js_or role (JStr ''user''))]]\<rparr>
                   in (reply 201 (message ''User registered successfully''),
                       s1\<lparr>files := saveData ''users.json''
                            \<lparr>nextId = usersData_nextId s1, items = JArr (users s1)\<rparr>
                            (files s1)\<rparr>))))"

definition login :: "request \<Rightarrow> server \<Rightarrow> response \<times> server" where
  "login req s =
     (let username = get (body req) ''username'';
          password = get (body req) ''password''
      in case find_js (\<lambda>u. case getprop u ''username'' of
                              None \<Rightarrow> Inl TypeError
                            | Some n \<Rightarrow>
                                if strict_eq n username
                                then Inr (strict_eq (get u ''password'') password)
                                else Inr False) (users s) of
           Inl e \<Rightarrow> (uncaught e, s)
         | Inr None \<Rightarrow> (reply 401 (message ''Invalid credentials''), s)
         | Inr (Some (i, user)) \<Rightarrow>
             if \<not> truthy user then (reply 401 (message ''Invalid credentials''), s)
             else
               (let token = randomHex req;
                    s1 = s\<lparr>sessions := (sessions s)(token \<mapsto>
                            JObj [(''username'', get user ''username''),
                                  (''role'', get user ''role'')])\<rparr>
                in (reply 200 (JObj [(''message'', JStr ''Login successful''),
                                     (''token'', JStr token),
                                     (''user'', JObj [(''username'', get user ''username''),
                                                      (''role'', get user ''role'')])]),
                    s1)))"

subsection \<open>Classifieds\<close>

definition get_classifieds :: "request \<Rightarrow> server \<Rightarrow> response \<times> server" where
  "get_classifieds req s = (reply 200 (JObj [(''classifieds'', JArr (classifieds s))]), s)"

definition post_classifieds :: "request \<Rightarrow> server \<Rightarrow> response \<times> server" where
  "post_classifieds req s =
     (case authenticate req s of
        Inl denied \<Rightarrow> (denied, s)
      | Inr user \<Rightarrow>
          (let title = get (body req) ''title'';
               description = get (body req) ''description'';
               category = get (body req) ''category'';
               price = get (body req) ''price''
           in if \<not> truthy title \<or> \<not> truthy description \<or> \<not> truthy category
              then (reply 400 (message ''Missing required fields''), s)
              else
                (let ad = JObj [(''id'', JNum (nextAdId s)),
                                (''title'', title),
                                (''description'', description),
                                (''category'', category),
                                (''price'', if defined price then price else JNull),
                                (''dateCreated'', JStr (now req)),
                                (''owner'', get user ''username'')];
                     s1 = s\<lparr>nextAdId := nextAdId s + 1, classifieds := classifieds s @ [ad]\<rparr>
                 in (reply 201 (JObj [(''message'', JStr ''Classified created''), (''ad'', ad)]),
                     s1\<lparr>files := saveData ''classifieds.json''
                          \<lparr>nextId = JNum (nextAdId s1), items = JArr (classifieds s1)\<rparr>
                          (files s1)\<rparr>))))"

definition get_classified :: "request \<Rightarrow> server \<Rightarrow> response \<times> server" where
  "get_classified req s =
     (let id = parseInt (id_param req)
      in case find_js (has_id id) (classifieds s) of
           Inl e \<Rightarrow> (uncaught e, s)
         | Inr None \<Rightarrow> (reply 404 (message ''Ad not found''), s)
         | Inr (Some (i, ad)) \<Rightarrow> (reply 200 (JObj [(''ad'', ad)]), s))"

definition put_classified :: "request \<Rightarrow> server \<Rightarrow> response \<times> server" where
  "put_classified req s =
     (let id = parseInt (id_param req)
      in case find_js (has_id id) (classifieds s) of
           Inl e \<Rightarrow> (uncaught e, s)
         | Inr None \<Rightarrow> (reply 404 (message ''Ad not found''), s)
         | Inr (Some (i, ad)) \<Rightarrow>
             (let title = get (body req) ''title'';
                  description = get (body req) ''description'';
                  category = get (body req) ''category'';
                  price = get (body req) ''price'';
                  ad1 = assign ad ''title'' (js_or title (get ad ''title''));
                  ad2 = assign ad1 ''description'' (js_or description (get ad1 ''description''));
                  ad3 = assign ad2 ''category'' (js_or category (get ad2 ''category''));
                  ad4 = assign ad3 ''price'' (if defined price then price else get ad3 ''price'');
                  s1 = s\<lparr>classifieds := (classifieds s)[i := ad4]\<rparr>
              in (reply 200 (JObj [(''message'', JStr ''Ad updated''), (''ad'', ad4)]),
                  s1\<lparr>files := saveData ''classifieds.json''
                       \<lparr>nextId = JNum (nextAdId s1), items = JArr (classifieds s1)\<rparr>
                       (files s1)\<rparr>)))"

definition delete_classified :: "request \<Rightarrow> server \<Rightarrow> response \<times> server" where
  "delete_classified req s =
     (let id = parseInt (id_param req)
      in case findIndex (has_id id) (classifieds s) of
           Inl e \<Rightarrow> (uncaught e, s)
         | Inr None \<Rightarrow> (reply 404 (message ''Ad not found''), s)
         | Inr (Some index) \<Rightarrow>
             (let s1 = s\<lparr>classifieds := splice1 index (classifieds s)\<rparr>
              in (reply 200 (message ''Ad deleted''),
                  s1\<lparr>files := saveData ''classifieds.json''
                       \<lparr>nextId = JNum (nextAdId s1), items = JArr (classifieds s1)\<rparr>
                       (files s1)\<rparr>)))"

text \<open>
  The handler of \<open>POST /api/classifieds\<close> in the in-memory variant of the server: no
  authentication, no file, and the price goes through \<open>price || null\<close>.
\<close>

definition post_classifieds_mem :: "request \<Rightarrow> server \<Rightarrow> response \<times> server" where
  "post_classifieds_mem req s =
     (let title = get (body req) ''title'';
          description = get (body req) ''description'';
          category = get (body req) ''category'';
          price = get (body req) ''price''
      in if \<not> truthy title \<or> \<not> truthy description \<or> \<not> truthy category
         then (reply 400 (message ''Missing required fields''), s)
         else
           (let ad = JObj [(''id'', JNum (nextAdId s)),
                           (''title'', title),
                           (''description'', description),
                           (''category'', category),
                           (''price'', js_or price JNull),
                           (''dateCreated'', JStr (now req))]
            in (reply 201 (JObj [(''message'', JStr ''Classified created''), (''ad'', ad)]),
                s\<lparr>nextAdId := nextAdId s + 1, classifieds := classifieds s @ [ad]\<rparr>)))"

subsection \<open>Vacancies\<close>

text \<open>The callbacks of the two filters of \<open>GET /api/vacancies\<close>. \<open>toLowerCase\<close> exists
  on strings only: calling it on anything else throws.\<close>

definition company_includes :: "string \<Rightarrow> jsval \<Rightarrow> error + bool" where
  "company_includes categoryLower v =
     (case getprop v ''company'' of
        Some (JStr c) \<Rightarrow> Inr (str_includes (toLowerCase c) categoryLower)
      | _ \<Rightarrow> Inl TypeError)"

definition salary_at_least :: "jsnum \<Rightarrow> jsval \<Rightarrow> error + bool" where
  "salary_at_least minv v =
     (case getprop v ''salary'' of
        None \<Rightarrow> Inl TypeError
      | Some sal \<Rightarrow> Inr (sal \<noteq> JNull \<and> js_ge sal minv))"

text \<open>\<open>if (q) { ... result = result.filter(p) }\<close> on a result that may already have
  thrown.\<close>

definition refine :: "(jsval \<Rightarrow> error + bool) \<Rightarrow> error + jsval list \<Rightarrow> error + jsval list" where
  "refine p result = (case result of Inl e \<Rightarrow> Inl e | Inr xs \<Rightarrow> filter_js p xs)"

definition get_vacancies :: "request \<Rightarrow> server \<Rightarrow> response \<times> server" where
  "get_vacancies req s =
     (let result = Inr (vacancies s);
          result1 = (case query req ''category'' of
                       None \<Rightarrow> result
                     | Some category \<Rightarrow>
                         if category \<noteq> []
                         then refine (company_includes (toLowerCase category)) result
                         else result);
          result2 = (case query req ''minSalary'' of
                       None \<Rightarrow> result1
                     | Some minSalary \<Rightarrow>
                         if minSalary \<noteq> [] \<and> \<not> isNaN (parseFloat minSalary)
                         then refine (salary_at_least (parseFloat minSalary)) result1
                         else result1)
      in case result2 of
           Inl e \<Rightarrow> (uncaught e, s)
         | Inr xs \<Rightarrow> (reply 200 (JObj [(''vacancies'', JArr xs)]), s))"

definition post_vacancies :: "request \<Rightarrow> server \<Rightarrow> response \<times> server" where
  "post_vacancies req s =
     (let title = get (body req) ''title'';
          company = get (body req) ''company'';
          description = get (body req) ''description'';
          salary = get (body req) ''salary''
      in if \<not> truthy title \<or> \<not> truthy company \<or> \<not> truthy description
         then (reply 400 (message ''Missing required fields''), s)
         else
           (let vacancy = JObj [(''id'', JNum (nextVacancyId s)),
                                (''title'', title),
                                (''company'', company),
                                (''description'', description),
                                (''salary'', if defined salary then salary else JNull),
                                (''dateCreated'', JStr (now req))];
                s1 = s\<lparr>nextVacancyId := nextVacancyId s + 1,
                        vacancies := vacancies s @ [vacancy]\<rparr>
            in (reply 201 (JObj [(''message'', JStr ''Vacancy created''), (''vacancy'', vacancy)]),
                s1\<lparr>files := saveData ''vacancies.json''
                     \<lparr>nextId = JNum (nextVacancyId s1), items = JArr (vacancies s1)\<rparr>
                     (files s1)\<rparr>)))"

definition get_vacancy :: "request \<Rightarrow> server \<Rightarrow> response \<times> server" where
  "get_vacancy req s =
     (let id = parseInt (id_param req)
      in case find_js (has_id id) (vacancies s) of
           Inl e \<Rightarrow> (uncaught e, s)
         | Inr None \<Rightarrow> (reply 404 (message ''Vacancy not found''), s)
         | Inr (Some (i, vacancy)) \<Rightarrow> (reply 200 (JObj [(''vacancy'', vacancy)]), s))"

definition put_vacancy :: "request \<Rightarrow> server \<Rightarrow> response \<times> server" where
  "put_vacancy req s =
     (let id = parseInt (id_param req)
      in case find_js (has_id id) (vacancies s) of
           Inl e \<Rightarrow> (uncaught e, s)
         | Inr None \<Rightarrow> (reply 404 (message ''Vacancy not found''), s)
         | Inr (Some (i, vacancy)) \<Rightarrow>
             (let title = get (body req) ''title'';
                  company = get (body req) ''company'';
                  description = get (body req) ''description'';
                  salary = get (body req) ''salary'';
                  v1 = (if truthy title then assign vacancy ''title'' title else vacancy);
                  v2 = (if truthy company then assign v1 ''company'' company else v1);
                  v3 = (if truthy description then assign v2 ''description'' description else v2);
                  v4 = (if defined salary then assign v3 ''salary'' salary else v3);
                  s1 = s\<lparr>vacancies := (vacancies s)[i := v4]\<rparr>
              in (reply 200 (JObj [(''message'', JStr ''Vacancy updated''), (''vacancy'', v4)]),
                  s1\<lparr>files := saveData ''vacancies.json''
                       \<lparr>nextId = JNum (nextVacancyId s1), items = JArr (vacancies s1)\<rparr>
                       (files s1)\<rparr>)))"

definition delete_vacancy :: "request \<Rightarrow> server \<Rightarrow> response \<times> server" where
  "delete_vacancy req s =
     (let id = parseInt (id_param req)
      in case findIndex (has_id id) (vacancies s) of
           Inl e \<Rightarrow> (uncaught e, s)
         | Inr None \<Rightarrow> (reply 404 (message ''Vacancy not found''), s)
         | Inr (Some index) \<Rightarrow>
             (let s1 = s\<lparr>vacancies := splice1 index (vacancies s)\<rparr>
              in (reply 200 (message ''Vacancy deleted''),
                  s1\<lparr>files := saveData ''vacancies.json''
                       \<lparr>nextId = JNum (nextVacancyId s1), items = JArr (vacancies s1)\<rparr>
                       (files s1)\<rparr>)))"

subsection \<open>Companies\<close>

definition category_includes :: "string \<Rightarrow> jsval \<Rightarrow> error + bool" where
  "category_includes catLower c =
     (case getprop c ''category'' of
        Some (JStr x) \<Rightarrow> Inr (str_includes (toLowerCase x) catLower)
      | _ \<Rightarrow> Inl TypeError)"

definition get_companies :: "request \<Rightarrow> server \<Rightarrow> response \<times> server" where
  "get_companies req s =
     (let result = Inr (companies s);
          result1 = (case query req ''category'' of
                       None \<Rightarrow> result
                     | Some category \<Rightarrow>
                         if category \<noteq> []
                         then filter_js (category_includes (toLowerCase category)) (companies s)
                         else result)
      in case result1 of
           Inl e \<Rightarrow> (uncaught e, s)
         | Inr xs \<Rightarrow> (reply 200 (JObj [(''companies'', JArr xs)]), s))"

definition post_companies :: "request \<Rightarrow> server \<Rightarrow> response \<times> server" where
  "post_companies req s =
     (let name = get (body req) ''name'';
          category = get (body req) ''category'';
          description = get (body req) ''description'';
          rating = get (body req) ''rating''
      in if \<not> truthy name \<or> \<not> truthy category \<or> \<not> truthy description
         then (reply 400 (message ''Missing required fields''), s)
         else
           (let company = JObj [(''id'', JNum (nextCompanyId s)),
                                (''name'', name),
                                (''category'', category),
                                (''description'', description),
                                (''rating'', if defined rating then rating else JNull),
                                (''dateCreated'', JStr (now req))];
                s1 = s\<lparr>nextCompanyId := nextCompanyId s + 1,
                        companies := companies s @ [company]\<rparr>
            in (reply 201 (JObj [(''message'', JStr ''Company created''), (''company'', company)]),
                s1\<lparr>files := saveData ''companies.json''
                     \<lparr>nextId = JNum (nextCompanyId s1), items = JArr (companies s1)\<rparr>
                     (files s1)\<rparr>)))"

definition get_company :: "request \<Rightarrow> server \<Rightarrow> response \<times> server" where
  "get_company req s =
     (let id = parseInt (id_param req)
      in case find_js (has_id id) (companies s) of
           Inl e \<Rightarrow> (uncaught e, s)
         | Inr None \<Rightarrow> (reply 404 (message ''Company not found''), s)
         | Inr (Some (i, company)) \<Rightarrow> (reply 200 (JObj [(''company'', company)]), s))"

definition put_company :: "request \<Rightarrow> server \<Rightarrow> response \<times> server" where
  "put_company req s =
     (let id = parseInt (id_param req)
      in case find_js (has_id id) (companies s) of
           Inl e \<Rightarrow> (uncaught e, s)
         | Inr None \<Rightarrow> (reply 404 (message ''Company not found''), s)
         | Inr (Some (i, company)) \<Rightarrow>
             (let name = get (body req) ''name'';
                  category = get (body req) ''category'';
                  description = get (body req) ''description'';
                  rating = get (body req) ''rating'';
                  c1 = (if truthy name then assign company ''name'' name else company);
                  c2 = (if truthy category then assign c1 ''category'' category else c1);
                  c3 = (if truthy description then assign c2 ''description'' description else c2);
                  c4 = (if defined rating then assign c3 ''rating'' rating else c3);
                  s1 = s\<lparr>companies := (companies s)[i := c4]\<rparr>
              in (reply 200 (JObj [(''message'', JStr ''Company updated''), (''company'', c4)]),
                  s1\<lparr>files := saveData ''companies.json''
                       \<lparr>nextId = JNum (nextCompanyId s1), items = JArr (companies s1)\<rparr>
                       (files s1)\<rparr>)))"

definition delete_company :: "request \<Rightarrow> server \<Rightarrow> response \<times> server" where
  "delete_company req s =
     (let id = parseInt (id_param req)
      in case findIndex (has_id id) (companies s) of
           Inl e \<Rightarrow> (uncaught e, s)
         | Inr None \<Rightarrow> (reply 404 (message ''Company not found''), s)
         | Inr (Some index) \<Rightarrow>
             (let s1 = s\<lparr>companies := splice1 index (companies s)\<rparr>
              in (reply 200 (message ''Company deleted''),
                  s1\<lparr>files := saveData ''companies.json''
                       \<lparr>nextId = JNum (nextCompanyId s1), items = JArr (companies s1)\<rparr>
                       (files s1)\<rparr>)))"

subsection \<open>Real estate\<close>

definition type_is :: "string \<Rightarrow> jsval \<Rightarrow> error + bool" where
  "type_is typeLower p =
     (case getprop p ''type'' of
        Some (JStr t) \<Rightarrow> Inr (toLowerCase t = typeLower)
      | _ \<Rightarrow> Inl TypeError)"

definition price_at_least :: "jsnum \<Rightarrow> jsval \<Rightarrow> error + bool" where
  "price_at_least minv p =
     (case getprop p ''price'' of
        None \<Rightarrow> Inl TypeError
      | Some pr \<Rightarrow> Inr (pr \<noteq> JNull \<and> js_ge pr minv))"

definition get_realEstate :: "request \<Rightarrow> server \<Rightarrow> response \<times> server" where
  "get_realEstate req s =
     (let result = Inr (realEstate s);
          result1 = (case query req ''type'' of
                       None \<Rightarrow> result
                     | Some type \<Rightarrow>
                         if type \<noteq> []
                         then refine (type_is (toLowerCase type)) result
                         else result);
          result2 = (case query req ''minPrice'' of
                       None \<Rightarrow> result1
                     | Some minPrice \<Rightarrow>
                         if minPrice \<noteq> [] \<and> \<not> isNaN (parseFloat minPrice)
                         then refine (price_at_least (parseFloat minPrice)) result1
                         else result1)
      in case result2 of
           Inl e \<Rightarrow> (uncaught e, s)
         | Inr xs \<Rightarrow> (reply 200 (JObj [(''realEstate'', JArr xs)]), s))"

definition post_realEstate :: "request \<Rightarrow> server \<Rightarrow> response \<times> server" where
  "post_realEstate req s =
     (let type = get (body req) ''type'';
          title = get (body req) ''title'';
          description = get (body req) ''description'';
          price = get (body req) ''price'';
          location = get (body req) ''location''
      in if \<not> truthy type \<or> \<not> truthy title \<or> \<not> truthy description
         then (reply 400 (message ''Missing required fields''), s)
         else
           (let property = JObj [(''id'', JNum (nextPropertyId s)),
                                 (''type'', type),
                                 (''title'', title),
                                 (''description'', description),
                                 (''price'', if defined price then price else JNull),
                                 (''location'', js_or location JNull),
                                 (''dateCreated'', JStr (now req))];
                s1 = s\<lparr>nextPropertyId := nextPropertyId s + 1,
                        realEstate := realEstate s @ [property]\<rparr>
            in (reply 201 (JObj [(''message'', JStr ''Property created''), (''property'', property)]),
                s1\<lparr>files := saveData ''realEstate.json''
                     \<lparr>nextId = JNum (nextPropertyId s1), items = JArr (realEstate s1)\<rparr>
                     (files s1)\<rparr>)))"

definition get_property :: "request \<Rightarrow> server \<Rightarrow> response \<times> server" where
  "get_property req s =
     (let id = parseInt (id_param req)
      in case find_js (has_id id) (realEstate s) of
           Inl e \<Rightarrow> (uncaught e, s)
         | Inr None \<Rightarrow> (reply 404 (message ''Property not found''), s)
         | Inr (Some (i, property)) \<Rightarrow> (reply 200 (JObj [(''property'', property)]), s))"

definition put_property :: "request \<Rightarrow> server \<Rightarrow> response \<times> server" where
  "put_property req s =
     (let id = parseInt (id_param req)
      in case find_js (has_id id) (realEstate s) of
           Inl e \<Rightarrow> (uncaught e, s)
         | Inr None \<Rightarrow> (reply 404 (message ''Property not found''), s)
         | Inr (Some (i, property)) \<Rightarrow>
             (let type = get (body req) ''type'';
                  title = get (body req) ''title'';
                  description = get (body req) ''description'';
                  price = get (body req) ''price'';
                  location = get (body req) ''location'';
                  p1 = (if truthy type then assign property ''type'' type else property);
                  p2 = (if truthy title then assign p1 ''title'' title else p1);
                  p3 = (if truthy description then assign p2 ''description'' description else p2);
                  p4 = (if defined price then assign p3 ''price'' price else p3);
                  p5 = (if defined location then assign p4 ''location'' location else p4);
                  s1 = s\<lparr>realEstate := (realEstate s)[i := p5]\<rparr>
              in (reply 200 (JObj [(''message'', JStr ''Property updated''), (''property'', p5)]),
                  s1\<lparr>files := saveData ''realEstate.json''
                       \<lparr>nextId = JNum (nextPropertyId s1), items = JArr (realEstate s1)\<rparr>
                       (files s1)\<rparr>)))"

definition delete_property :: "request \<Rightarrow> server \<Rightarrow> response \<times> server" where
  "delete_property req s =
     (let id = parseInt (id_param req)
      in case findIndex (has_id id) (realEstate s) of
           Inl e \<Rightarrow> (uncaught e, s)
         | Inr None \<Rightarrow> (reply 404 (message ''Property not found''), s)
         | Inr (Some index) \<Rightarrow>
             (let s1 = s\<lparr>realEstate := splice1 index (realEstate s)\<rparr>
              in (reply 200 (message ''Property deleted''),
                  s1\<lparr>files := saveData ''realEstate.json''
                       \<lparr>nextId = JNum (nextPropertyId s1), items = JArr (realEstate s1)\<rparr>
                       (files s1)\<rparr>)))"

subsection \<open>Start-up\<close>

text \<open>
  The module's top level: every collection and its counter are read with \<open>loadData\<close>
  and the defaults \<open>{ nextId: 1, items: [] }\<close>. The handlers are modelled on counters
  that are numbers and collections that are arrays; \<open>boot\<close> is \<open>None\<close> on a disk that
  gives anything else.
\<close>

definition defaults0 :: data where
  "defaults0 = \<lparr>nextId = JNum 1, items = JArr []\<rparr>"

fun as_number :: "jsval \<Rightarrow> rat option" where
  "as_number (JNum x) = Some x"
| "as_number v = None"

fun as_array :: "jsval \<Rightarrow> jsval list option" where
  "as_array (JArr xs) = Some xs"
| "as_array v = None"

definition boot :: "disk \<Rightarrow> server option" where
  "boot d =
     (let usersData = loadData d ''users.json'' defaults0;
          classifiedsData = loadData d ''classifieds.json'' defaults0;
          vacanciesData = loadData d ''vacancies.json'' defaults0;
          companiesData = loadData d ''companies.json'' defaults0;
          realEstateData = loadData d ''realEstate.json'' defaults0
      in case (as_array (items usersData),
               as_number (nextId classifiedsData), as_array (items classifiedsData),
               as_number (nextId vacanciesData), as_array (items vacanciesData),
               as_number (nextId companiesData), as_array (items companiesData),
               as_number (nextId realEstateData), as_array (items realEstateData)) of
           (Some us, Some na, Some ads, Some nv, Some vs, Some nc, Some cs, Some np, Some ps) \<Rightarrow>
             Some \<lparr>sessions = Map.empty,
                   usersData_nextId = nextId usersData, users = us,
                   nextAdId = na, classifieds = ads,
                   nextVacancyId = nv, vacancies = vs,
                   nextCompanyId = nc, companies = cs,
                   nextPropertyId = np, realEstate = ps,
                   files = d\<rparr>
         | _ \<Rightarrow> None)"

text \<open>Stopping the process and starting it again on the same data directory.\<close>

definition restart :: "server \<Rightarrow> server option" where
  "restart s = boot (files s)"

subsection \<open>Routes\<close>

datatype resource = Classifieds | Vacancies | Companies | RealEstate

datatype route =
    Register
  | Login
  | GetAll resource
  | Post resource
  | GetOne resource
  | Put resource
  | Delete resource

fun handle :: "route \<Rightarrow> request \<Rightarrow> server \<Rightarrow> response \<times> server" where
  "handle Register = register"
| "handle Login = login"
| "handle (GetAll Classifieds) = get_classifieds"
| "handle (Post Classifieds) = post_classifieds"
| "handle (GetOne Classifieds) = get_classified"
| "handle (Put Classifieds) = put_classified"
| "handle (Delete Classifieds) = delete_classified"
| "handle (GetAll Vacancies) = get_vacancies"
| "handle (Post Vacancies) = post_vacancies"
| "handle (GetOne Vacancies) = get_vacancy"
| "handle (Put Vacancies) = put_vacancy"
| "handle (Delete Vacancies) = delete_vacancy"
| "handle (GetAll Companies) = get_companies"
| "handle (Post Companies) = post_companies"
| "handle (GetOne Companies) = get_company"
| "handle (Put Companies) = put_company"
| "handle (Delete Companies) = delete_company"
| "handle (GetAll RealEstate) = get_realEstate"
| "handle (Post RealEstate) = post_realEstate"
| "handle (GetOne RealEstate) = get_property"
| "handle (Put RealEstate) = put_property"
| "handle (Delete RealEstate) = delete_property"

text \<open>The requests of a run are handled one after the other, each to completion.\<close>

fun run :: "(route \<times> request) list \<Rightarrow> server \<Rightarrow> server" where
  "run [] s = s"
| "run (op # ops) s = run ops (snd (handle (fst op) (snd op) s))"

text \<open>The counter and the collection of a resource type, and the key under which a
  response carries one record of it.\<close>

fun counter :: "resource \<Rightarrow> server \<Rightarrow> rat" where
  "counter Classifieds = nextAdId"
| "counter Vacancies = nextVacancyId"
| "counter Companies = nextCompanyId"
| "counter RealEstate = nextPropertyId"

fun collection :: "resource \<Rightarrow> server \<Rightarrow> jsval list" where
  "collection Classifieds = classifieds"
| "collection Vacancies = vacancies"
| "collection Companies = companies"
| "collection RealEstate = realEstate"

fun singular :: "resource \<Rightarrow> string" where
  "singular Classifieds = ''ad''"
| "singular Vacancies = ''vacancy''"
| "singular Companies = ''company''"
| "singular RealEstate = ''property''"

text \<open>The record that a response carries.\<close>

definition record_of :: "resource \<Rightarrow> response \<Rightarrow> jsval" where
  "record_of r resp = get (payload resp) (singular r)"


section \<open>Vocabulary of the properties\<close>

fun is_object :: "jsval \<Rightarrow> bool" where
  "is_object (JObj kvs) = True"
| "is_object v = False"

text \<open>The record that a request with an \<open>:id\<close> addresses, and its position: the first
  record of the collection whose \<open>id\<close> is that number.\<close>

definition target :: "resource \<Rightarrow> request \<Rightarrow> server \<Rightarrow> (nat \<times> jsval) option" where
  "target r req s =
     (case find_js (has_id (parseInt (id_param req))) (collection r s) of
        Inr (Some x) \<Rightarrow> Some x
      | _ \<Rightarrow> None)"

text \<open>The fields that \<open>POST\<close> insists on, per resource type.\<close>

fun required_fields :: "resource \<Rightarrow> string list" where
  "required_fields Classifieds = [''title'', ''description'', ''category'']"
| "required_fields Vacancies = [''title'', ''company'', ''description'']"
| "required_fields Companies = [''name'', ''category'', ''description'']"
| "required_fields RealEstate = [''type'', ''title'', ''description'']"

text \<open>The server as it starts on an empty data directory, and a request that carries
  nothing.\<close>

definition server0 :: server where
  "server0 =
     \<lparr>sessions = Map.empty,
      usersData_nextId = JNum 1, users = [],
      nextAdId = 1, classifieds = [],
      nextVacancyId = 1, vacancies = [],
      nextCompanyId = 1, companies = [],
      nextPropertyId = 1, realEstate = [],
      files = Map.empty\<rparr>"

definition request0 :: request where
  "request0 =
     \<lparr>authorization = None, body = JObj [], id_param = [], query = Map.empty,
      now = ''2024-01-01T00:00:00.000Z'', randomHex = ''9f86d081884c7d659a2feaa0c55ad015''\<rparr>"

text \<open>
  Records as the data model of the interface has them: a vacancy is an object whose
  \<open>company\<close> is a string and whose \<open>salary\<close> is a number or \<open>null\<close>; a property is an
  object whose \<open>type\<close> is a string and whose \<open>price\<close> is a number or \<open>null\<close>.
\<close>

fun is_string :: "jsval \<Rightarrow> bool" where
  "is_string (JStr s) = True"
| "is_string v = False"

fun is_number_or_null :: "jsval \<Rightarrow> bool" where
  "is_number_or_null (JNum x) = True"
| "is_number_or_null JNull = True"
| "is_number_or_null v = False"


definition typed_property :: "jsval \<Rightarrow> bool" where
  "typed_property p =
     (is_object p \<and> is_string (get p ''type'') \<and> is_number_or_null (get p ''price''))"


text \<open>The value is a number (so not \<open>null\<close>) and at least \<open>m\<close>.\<close>

fun number_at_least :: "rat \<Rightarrow> jsval \<Rightarrow> bool" where
  "number_at_least m (JNum x) = (m \<le> x)"
| "number_at_least m v = False"

text \<open>Sample requests: a user, an advertisement, two vacancies, three companies and
  three properties, and the servers that have handled them.\<close>

definition alice :: jsval where
  "alice = JObj [(''username'', JStr ''alice''), (''password'', JStr ''pw'')]"

definition token0 :: string where
  "token0 = ''9f86d081884c7d659a2feaa0c55ad015''"

definition bike :: jsval where
  "bike = JObj [(''title'', JStr ''Bike''), (''description'', JStr ''Red''),
                (''category'', JStr ''sport''), (''price'', JNum 100)]"

definition server_ad :: server where
  "server_ad =
     run [(Register, request0\<lparr>body := alice\<rparr>),
          (Login, request0\<lparr>body := alice\<rparr>),
          (Post Classifieds, request0\<lparr>authorization := Some token0, body := bike\<rparr>)]
       server0"

definition acme :: jsval where
  "acme = JObj [(''title'', JStr ''Engineer''), (''company'', JStr ''Acme Corp''),
                (''description'', JStr ''Builds''), (''salary'', JNum 1000)]"

definition beta :: jsval where
  "beta = JObj [(''title'', JStr ''Analyst''), (''company'', JStr ''Beta LLC''),
                (''description'', JStr ''Counts''), (''salary'', JNum 5000)]"

definition server_jobs :: server where
  "server_jobs =
     run [(Post Vacancies, request0\<lparr>body := acme\<rparr>),
          (Post Vacancies, request0\<lparr>body := beta\<rparr>)]
       server0"

definition firm :: "string \<Rightarrow> jsval" where
  "firm n = JObj [(''name'', JStr n), (''category'', JStr ''Services''),
                  (''description'', JStr ''Open daily'')]"

definition server_firms :: server where
  "server_firms =
     run [(Post Companies, request0\<lparr>body := firm ''One''\<rparr>),
          (Post Companies, request0\<lparr>body := firm ''Two''\<rparr>),
          (Post Companies, request0\<lparr>body := firm ''Three''\<rparr>)]
       server0"




text \<open>A data directory whose companies file holds the counter \<open>-1\<close>.\<close>

definition disk_minus_one :: disk where
  "disk_minus_one =
     Map.empty(''companies.json'' \<mapsto>
       Readable (Parses (JObj [(''nextId'', JNum (- 1)), (''items'', JArr [])])))"

section \<open>Basic facts\<close>

lemma findIndex_SomeD:
  "findIndex p xs = Inr (Some i) \<Longrightarrow> i < length xs \<and> p (xs ! i) = Inr True"
proof (induction xs arbitrary: i)
  case Nil
  then show ?case by simp
next
  case (Cons x xs)
  then show ?case
    by (cases i) (auto split: sum.splits bool.splits option.splits)
qed

lemma find_js_SomeD:
  "find_js p xs = Inr (Some (i, x)) \<Longrightarrow> i < length xs \<and> x = xs ! i \<and> p x = Inr True"
  by (auto simp: find_js_def split: sum.splits option.splits dest: findIndex_SomeD)

lemma has_id_TrueD:
  "has_id n x = Inr True \<Longrightarrow> \<exists>kvs v. x = JObj kvs \<and> map_of kvs ''id'' = Some (JNum v) \<and> n = Fin v"
  by (cases x; cases n) (auto simp: has_id_def split: option.splits jsval.splits elim: strict_eq_num.elims)

lemma found_object:
  "find_js (has_id n) xs = Inr (Some (i, x)) \<Longrightarrow> \<exists>kvs. x = JObj kvs"
  using find_js_SomeD has_id_TrueD by blast

lemma get_update:
  "get (JObj (AList.update k v kvs)) k' = (if k' = k then v else get (JObj kvs) k')"
  by (simp add: get_def update_conv')

lemma status_reply: "status (reply n v) = n" "payload (reply n v) = v"
  by (simp_all add: reply_def)

lemma status_uncaught: "status (uncaught e) = 500"
  by (simp add: uncaught_def)

lemma get_pair: "get (JObj [(a, x), (b, y)]) b = (if b = a then x else y)"
  by (simp add: get_def)

lemma put_classified_found:
  assumes "find_js (has_id (parseInt (id_param req))) (classifieds s) = Inr (Some (i, old))"
  defines "new \<equiv> get (payload (fst (put_classified req s))) ''ad''"
  shows "status (fst (put_classified req s)) = 200
     \<and> snd (put_classified req s)
            = s\<lparr>classifieds := (classifieds s)[i := new],
                files := saveData ''classifieds.json''
                   \<lparr>nextId = JNum (nextAdId s), items = JArr ((classifieds s)[i := new])\<rparr>
                   (files s)\<rparr>
     \<and> is_object new
     \<and> get new ''id'' = get old ''id''
     \<and> get new ''dateCreated'' = get old ''dateCreated''
     \<and> get new ''title'' = js_or (get (body req) ''title'') (get old ''title'')
     \<and> get new ''description'' = js_or (get (body req) ''description'') (get old ''description'')
     \<and> get new ''category'' = js_or (get (body req) ''category'') (get old ''category'')
     \<and> get new ''price'' = (if defined (get (body req) ''price'') then get (body req) ''price''
                             else get old ''price'')"
proof -
  obtain kvs where "old = JObj kvs" using found_object [OF assms(1)] ..
  then show ?thesis using assms(1) unfolding new_def
    by (simp add: put_classified_def Let_def get_update js_or_def status_reply get_pair)
qed

lemma put_classified_200:
  "status (fst (put_classified req s)) = 200 \<Longrightarrow>
     \<exists>i old. find_js (has_id (parseInt (id_param req))) (classifieds s) = Inr (Some (i, old))"
  by (auto simp: put_classified_def Let_def status_reply status_uncaught
           split: sum.splits option.splits)

lemma get_classified_cong:
  "find_js (has_id (parseInt (id_param req))) (classifieds s')
     = find_js (has_id (parseInt (id_param req))) (classifieds s)
   \<Longrightarrow> fst (get_classified req s') = fst (get_classified req s)"
  by (simp add: get_classified_def Let_def split: sum.splits option.splits)

lemma put_vacancy_found:
  assumes "find_js (has_id (parseInt (id_param req))) (vacancies s) = Inr (Some (i, old))"
  defines "new \<equiv> get (payload (fst (put_vacancy req s))) ''vacancy''"
  shows "status (fst (put_vacancy req s)) = 200
     \<and> snd (put_vacancy req s)
            = s\<lparr>vacancies := (vacancies s)[i := new],
                files := saveData ''vacancies.json''
                   \<lparr>nextId = JNum (nextVacancyId s), items = JArr ((vacancies s)[i := new])\<rparr>
                   (files s)\<rparr>
     \<and> is_object new
     \<and> get new ''id'' = get old ''id''
     \<and> get new ''dateCreated'' = get old ''dateCreated''
     \<and> get new ''title'' = js_or (get (body req) ''title'') (get old ''title'')
     \<and> get new ''company'' = js_or (get (body req) ''company'') (get old ''company'')
     \<and> get new ''description'' = js_or (get (body req) ''description'') (get old ''description'')
     \<and> get new ''salary'' = (if defined (get (body req) ''salary'') then get (body req) ''salary''
                             else get old ''salary'')"
proof -
  obtain kvs where "old = JObj kvs" using found_object [OF assms(1)] ..
  then show ?thesis using assms(1) unfolding new_def
    by (simp add: put_vacancy_def Let_def get_update js_or_def status_reply get_pair)
qed

lemma put_vacancy_200:
  "status (fst (put_vacancy req s)) = 200 \<Longrightarrow>
     \<exists>i old. find_js (has_id (parseInt (id_param req))) (vacancies s) = Inr (Some (i, old))"
  by (auto simp: put_vacancy_def Let_def status_reply status_uncaught
           split: sum.splits option.splits)

lemma get_vacancy_cong:
  "find_js (has_id (parseInt (id_param req))) (vacancies s')
     = find_js (has_id (parseInt (id_param req))) (vacancies s)
   \<Longrightarrow> fst (get_vacancy req s') = fst (get_vacancy req s)"
  by (simp add: get_vacancy_def Let_def split: sum.splits option.splits)

lemma put_company_found:
  assumes "find_js (has_id (parseInt (id_param req))) (companies s) = Inr (Some (i, old))"
  defines "new \<equiv> get (payload (fst (put_company req s))) ''company''"
  shows "status (fst (put_company req s)) = 200
     \<and> snd (put_company req s)
            = s\<lparr>companies := (companies s)[i := new],
                files := saveData ''companies.json''
                   \<lparr>nextId = JNum (nextCompanyId s), items = JArr ((companies s)[i := new])\<rparr>
                   (files s)\<rparr>
     \<and> is_object new
     \<and> get new ''id'' = get old ''id''
     \<and> get new ''dateCreated'' = get old ''dateCreated''
     \<and> get new ''name'' = js_or (get (body req) ''name'') (get old ''name'')
     \<and> get new ''category'' = js_or (get (body req) ''category'') (get old ''category'')
     \<and> get new ''description'' = js_or (get (body req) ''description'') (get old ''description'')
     \<and> get new ''rating'' = (if defined (get (body req) ''rating'') then get (body req) ''rating''
                             else get old ''rating'')"
proof -
  obtain kvs where "old = JObj kvs" using found_object [OF assms(1)] ..
  then show ?thesis using assms(1) unfolding new_def
    by (simp add: put_company_def Let_def get_update js_or_def status_reply get_pair)
qed

lemma put_company_200:
  "status (fst (put_company req s)) = 200 \<Longrightarrow>
     \<exists>i old. find_js (has_id (parseInt (id_param req))) (companies s) = Inr (Some (i, old))"
  by (auto simp: put_company_def Let_def status_reply status_uncaught
           split: sum.splits option.splits)

lemma get_company_cong:
  "find_js (has_id (parseInt (id_param req))) (companies s')
     = find_js (has_id (parseInt (id_param req))) (companies s)
   \<Longrightarrow> fst (get_company req s') = fst (get_company req s)"
  by (simp add: get_company_def Let_def split: sum.splits option.splits)

lemma put_property_found:
  assumes "find_js (has_id (parseInt (id_param req))) (realEstate s) = Inr (Some (i, old))"
  defines "new \<equiv> get (payload (fst (put_property req s))) ''property''"
  shows "status (fst (put_property req s)) = 200
     \<and> snd (put_property req s)
            = s\<lparr>realEstate := (realEstate s)[i := new],
                files := saveData ''realEstate.json''
                   \<lparr>nextId = JNum (nextPropertyId s), items = JArr ((realEstate s)[i := new])\<rparr>
                   (files s)\<rparr>
     \<and> is_object new
     \<and> get new ''id'' = get old ''id''
     \<and> get new ''dateCreated'' = get old ''dateCreated''
     \<and> get new ''type'' = js_or (get (body req) ''type'') (get old ''type'')
     \<and> get new ''title'' = js_or (get (body req) ''title'') (get old ''title'')
     \<and> get new ''description'' = js_or (get (body req) ''description'') (get old ''description'')
     \<and> get new ''price'' = (if defined (get (body req) ''price'') then get (body req) ''price''
                             else get old ''price'')
     \<and> get new ''location'' = (if defined (get (body req) ''location'') then get (body req) ''location''
                             else get old ''location'')"
proof -
  obtain kvs where "old = JObj kvs" using found_object [OF assms(1)] ..
  then show ?thesis using assms(1) unfolding new_def
    by (simp add: put_property_def Let_def get_update js_or_def status_reply get_pair)
qed

lemma put_property_200:
  "status (fst (put_property req s)) = 200 \<Longrightarrow>
     \<exists>i old. find_js (has_id (parseInt (id_param req))) (realEstate s) = Inr (Some (i, old))"
  by (auto simp: put_property_def Let_def status_reply status_uncaught
           split: sum.splits option.splits)

lemma get_property_cong:
  "find_js (has_id (parseInt (id_param req))) (realEstate s')
     = find_js (has_id (parseInt (id_param req))) (realEstate s)
   \<Longrightarrow> fst (get_property req s') = fst (get_property req s)"
  by (simp add: get_property_def Let_def split: sum.splits option.splits)

lemma findIndex_update:
  "i < length xs \<Longrightarrow> p (xs ! i) = p y \<Longrightarrow> findIndex p (xs[i := y]) = findIndex p xs"
proof (induction xs arbitrary: i)
  case Nil
  then show ?case by simp
next
  case (Cons x xs)
  show ?case
  proof (cases i)
    case 0
    then show ?thesis using Cons.prems by simp
  next
    case (Suc n)
    then have "findIndex p (xs[n := y]) = findIndex p xs"
      using Cons.IH [of n] Cons.prems by simp
    then show ?thesis using Suc by (simp split: sum.split bool.split)
  qed
qed

lemma has_id_cong:
  "is_object x \<Longrightarrow> is_object y \<Longrightarrow> get x ''id'' = get y ''id'' \<Longrightarrow> has_id n x = has_id n y"
  by (cases x; cases y) (simp_all add: has_id_def get_def)

lemma has_id_unique:
  "has_id n x = Inr True \<Longrightarrow> has_id n' x = Inr True \<Longrightarrow> n' = n"
  by (auto dest!: has_id_TrueD)

lemma find_js_update_other:
  assumes f: "find_js (has_id n) xs = Inr (Some (i, old))"
    and c: "has_id n' new = has_id n' old"
    and ne: "n' \<noteq> n"
  shows "find_js (has_id n') (xs[i := new]) = find_js (has_id n') xs"
proof -
  from find_js_SomeD [OF f] have i: "i < length xs" and old: "old = xs ! i"
    and t: "has_id n old = Inr True" by auto
  have fi: "findIndex (has_id n') (xs[i := new]) = findIndex (has_id n') xs"
    using findIndex_update [OF i, of "has_id n'" new] c old by simp
  show ?thesis
  proof (cases "findIndex (has_id n') xs")
    case (Inl e)
    then show ?thesis using fi by (simp add: find_js_def)
  next
    case (Inr o1)
    show ?thesis
    proof (cases o1)
      case None
      then show ?thesis using fi Inr by (simp add: find_js_def)
    next
      case (Some j)
      with Inr have "has_id n' (xs ! j) = Inr True" using findIndex_SomeD by blast
      then have "j \<noteq> i" using t old ne has_id_unique by blast
      then show ?thesis using fi Inr Some by (simp add: find_js_def)
    qed
  qed
qed

lemma targetD:
  "target r req s = Some (i, old) \<Longrightarrow>
     find_js (has_id (parseInt (id_param req))) (collection r s) = Inr (Some (i, old))"
  by (auto simp: target_def split: sum.splits option.splits)

lemma put_200_target:
  "status (fst (handle (Put r) req s)) = 200 \<Longrightarrow> \<exists>i old. target r req s = Some (i, old)"
  by (cases r)
     (auto simp: target_def dest: put_classified_200 put_vacancy_200 put_company_200 put_property_200)

lemma put_target:
  assumes "target r req s = Some (i, old)"
  defines "new \<equiv> record_of r (fst (handle (Put r) req s))"
  shows "status (fst (handle (Put r) req s)) = 200"
    and "collection r (snd (handle (Put r) req s)) = (collection r s)[i := new]"
    and "counter r' (snd (handle (Put r) req s)) = counter r' s"
    and "r' \<noteq> r \<Longrightarrow> collection r' (snd (handle (Put r) req s)) = collection r' s"
    and "is_object new"
    and "get new ''id'' = get old ''id''"
    and "get new ''dateCreated'' = get old ''dateCreated''"
    and "k \<in> set (required_fields r) \<Longrightarrow> get new k = js_or (get (body req) k) (get old k)"
proof -
  note f = targetD [OF assms(1)]
  show "status (fst (handle (Put r) req s)) = 200"
    using f
    by (cases r)
       (simp_all add: put_classified_found put_vacancy_found put_company_found put_property_found
          status_reply)
  show "collection r (snd (handle (Put r) req s)) = (collection r s)[i := new]"
    using f unfolding new_def record_of_def
    by (cases r)
       (simp_all add: put_classified_found put_vacancy_found put_company_found put_property_found)
  show "counter r' (snd (handle (Put r) req s)) = counter r' s"
    using f
    by (cases r; cases r')
       (simp_all add: put_classified_found put_vacancy_found put_company_found put_property_found)
  show "r' \<noteq> r \<Longrightarrow> collection r' (snd (handle (Put r) req s)) = collection r' s"
    using f
    by (cases r; cases r')
       (simp_all add: put_classified_found put_vacancy_found put_company_found put_property_found)
  show "is_object new"
    using f unfolding new_def record_of_def
    by (cases r)
       (simp_all add: put_classified_found put_vacancy_found put_company_found put_property_found)
  show "get new ''id'' = get old ''id''"
    using f unfolding new_def record_of_def
    by (cases r)
       (simp_all add: put_classified_found put_vacancy_found put_company_found put_property_found)
  show "get new ''dateCreated'' = get old ''dateCreated''"
    using f unfolding new_def record_of_def
    by (cases r)
       (simp_all add: put_classified_found put_vacancy_found put_company_found put_property_found)
  show "k \<in> set (required_fields r) \<Longrightarrow> get new k = js_or (get (body req) k) (get old k)"
    using f unfolding new_def record_of_def
    by (cases r)
       (auto simp: put_classified_found put_vacancy_found put_company_found put_property_found)
qed

lemma get_Nil: "get (JObj []) k = JUndefined"
  by (simp add: get_def)

lemma get_Cons: "get (JObj ((a, x) # kvs)) k = (if k = a then x else get (JObj kvs) k)"
  by (simp add: get_def)

lemma authenticate_Inl: "authenticate req s = Inl x \<Longrightarrow> status x = 401"
  by (auto simp: authenticate_def status_reply split: option.splits if_splits)






























lemma jsonify_json:
  "(is_json v \<longrightarrow> jsonify v = Some v)"
  "(are_json xs \<longrightarrow> jsonify_elems xs = xs)"
  "(props_json kvs \<longrightarrow> jsonify_props kvs = kvs)"
  by (induction v and xs and kvs rule: jsonify_jsonify_elems_jsonify_props.induct) auto

lemma save_load:
  assumes "truthy n" "truthy its" "is_json n" "is_json its"
  shows "loadData (saveData f \<lparr>nextId = n, items = its\<rparr> d) f dflt = \<lparr>nextId = n, items = its\<rparr>"
  using assms
  by (simp add: loadData_def loadData_try_def saveData_def writeFileSync_def readFileSync_def
      JSON_stringify_def jsonify_json js_or_def)

lemma load_other:
  "f' \<noteq> f \<Longrightarrow> loadData (saveData f dat d) f' dflt = loadData d f' dflt"
  by (simp add: loadData_def loadData_try_def saveData_def writeFileSync_def readFileSync_def)

lemma load_missing: "d f = None \<Longrightarrow> loadData d f dflt = dflt"
  by (simp add: loadData_def loadData_try_def readFileSync_def)

lemma is_json_get: "is_json b \<Longrightarrow> defined (get b k) \<Longrightarrow> is_json (get b k)"
proof (cases b)
  case (JObj kvs)
  assume "is_json b" "defined (get b k)"
  then have "props_json kvs" "defined (get (JObj kvs) k)" using JObj by simp_all
  then have "is_json (get (JObj kvs) k)"
    by (induction kvs) (auto simp: get_Cons get_Nil)
  then show ?thesis using JObj by simp
qed (simp_all add: get_def)

lemma truthy_defined: "truthy v \<Longrightarrow> defined v"
  by (cases v) simp_all

lemma boot_empty: "boot Map.empty = Some server0"
  by (simp add: boot_def load_missing defaults0_def server0_def Let_def)

lemma post_companies_201:
  assumes "status (fst (post_companies req s)) = 201"
  defines "c \<equiv> record_of Companies (fst (post_companies req s))"
  shows "snd (post_companies req s)
      = s\<lparr>nextCompanyId := nextCompanyId s + 1, companies := companies s @ [c],
          files := saveData ''companies.json''
            \<lparr>nextId = JNum (nextCompanyId s + 1), items = JArr (companies s @ [c])\<rparr> (files s)\<rparr>"
    and "get c ''id'' = JNum (nextCompanyId s)"
    and "is_json (body req) \<Longrightarrow> is_json c"
  using assms(1) unfolding c_def
  by (auto simp: post_companies_def Let_def status_reply record_of_def get_Cons
        is_json_get truthy_defined split: if_splits)

lemma prototype_name_nonempty: "t \<in> set object_prototype_names \<Longrightarrow> t \<noteq> []"
  by (auto simp: object_prototype_names_def)

lemma post_classifieds_unauthorized:
  assumes "authorization req = None \<or> authorization req = Some []
     \<or> (\<exists>t. authorization req = Some t \<and> sessions s t = None \<and> t \<notin> set object_prototype_names)"
  shows "post_classifieds req s = (reply 401 (message ''Unauthorized''), s)"
  using assms
  by (auto simp: post_classifieds_def authenticate_def sessions_at_def)




lemma filter_js_subseq: "filter_js p xs = Inr ys \<Longrightarrow> subseq ys xs"
proof (induction xs arbitrary: ys)
  case Nil
  then show ?case by simp
next
  case (Cons x xs)
  then show ?case
    by (auto split: sum.splits if_splits)
qed





lemma at_least_typed:
  assumes "is_object v" "is_number_or_null (get v k)"
  shows "getprop v k = Some (get v k)"
    and "(get v k \<noteq> JNull \<and> js_ge (get v k) (Fin M)) = number_at_least M (get v k)"
proof -
  obtain kvs where v: "v = JObj kvs" using assms(1) by (cases v) simp_all
  show "getprop v k = Some (get v k)" using v by (simp add: get_def)
  show "(get v k \<noteq> JNull \<and> js_ge (get v k) (Fin M)) = number_at_least M (get v k)"
    using assms(2) by (cases "get v k") (simp_all add: js_ge_def)
qed


lemma price_at_least_typed:
  "typed_property v \<Longrightarrow>
     price_at_least (Fin M) v = Inr (number_at_least M (get v ''price''))"
  using at_least_typed(1) [of v "''price''"] at_least_typed(2) [of v "''price''" M]
  by (simp add: typed_property_def price_at_least_def)






section \<open>Properties of the persistence layer\<close>

text \<open>
  C7 (first part). \<open>loadData\<close> never throws to its caller: whatever the \<open>try\<close> block
  throws, the result is the caller's defaults. A missing file, an unreadable file and a
  file that is not JSON make the block throw, and so does a file that holds \<open>null\<close>.
  (Second part, as amended.) From a file that holds \<open>{ nextId: n, items: [...] }\<close> it
  returns the stored items, and the stored \<open>nextId\<close> unless that is 0, which it replaces
  by the default \<open>nextId\<close>.
\<close>

theorem loadData_defaults_or_stored:
  "((\<exists>e. loadData_try d f dflt = Inl e) \<longrightarrow> loadData d f dflt = dflt)
   \<and> (d f = None \<or> d f = Some Unreadable \<or> d f = Some (Readable Malformed)
        \<or> d f = Some (Readable (Parses JNull))
        \<longrightarrow> (\<exists>e. loadData_try d f dflt = Inl e) \<and> loadData d f dflt = dflt)
   \<and> (d f = Some (Readable (Parses (JObj kvs))) \<and> map_of kvs ''nextId'' = Some (JNum n)
        \<and> map_of kvs ''items'' = Some (JArr xs)
        \<longrightarrow> loadData d f dflt =
            \<lparr>nextId = (if n = 0 then nextId dflt else JNum n), items = JArr xs\<rparr>)"
  by (auto simp: loadData_def loadData_try_def readFileSync_def js_or_def
           split: sum.splits option.splits)

theorem loadData_defaults_or_stored_witness:
  "loadData_try Map.empty ''companies.json'' defaults0 = Inl ENOENT
   \<and> loadData Map.empty ''companies.json'' defaults0 = \<lparr>nextId = JNum 1, items = JArr []\<rparr>
   \<and> loadData (Map.empty(''companies.json'' \<mapsto> Readable Malformed)) ''companies.json'' defaults0
       = \<lparr>nextId = JNum 1, items = JArr []\<rparr>
   \<and> loadData (Map.empty(''companies.json'' \<mapsto> Readable (Parses (JObj
         [(''nextId'', JNum 4), (''items'', JArr [JObj [(''id'', JNum 3)]])]))))
         ''companies.json'' defaults0
       = \<lparr>nextId = JNum 4, items = JArr [JObj [(''id'', JNum 3)]]\<rparr>"
proof -
  have a: "loadData_try Map.empty ''companies.json'' defaults0 = Inl ENOENT"
    by (simp add: loadData_try_def readFileSync_def)
  have b: "loadData Map.empty ''companies.json'' defaults0 = defaults0"
    using loadData_defaults_or_stored [of Map.empty "''companies.json''" defaults0] a by simp
  have c: "loadData (Map.empty(''companies.json'' \<mapsto> Readable Malformed)) ''companies.json''
             defaults0 = defaults0"
    using loadData_defaults_or_stored
      [of "Map.empty(''companies.json'' \<mapsto> Readable Malformed)" "''companies.json''" defaults0]
    by simp
  have d: "loadData (Map.empty(''companies.json'' \<mapsto> Readable (Parses (JObj
         [(''nextId'', JNum 4), (''items'', JArr [JObj [(''id'', JNum 3)]])]))))
         ''companies.json'' defaults0
       = \<lparr>nextId = JNum 4, items = JArr [JObj [(''id'', JNum 3)]]\<rparr>"
    using loadData_defaults_or_stored
      [of "Map.empty(''companies.json'' \<mapsto> Readable (Parses (JObj
         [(''nextId'', JNum 4), (''items'', JArr [JObj [(''id'', JNum 3)]])])))"
          "''companies.json''" defaults0
          "[(''nextId'', JNum 4), (''items'', JArr [JObj [(''id'', JNum 3)]])]"
          4 "[JObj [(''id'', JNum 3)]]"]
    by simp
  show ?thesis using a b c d by (simp add: defaults0_def)
qed

text \<open>
  C7 as stated fails on a well-formed file whose stored counter is 0: \<open>loadData\<close>
  returns the default counter 1, not the stored one.
\<close>

theorem loadData_zero_counter_counterexample:
  "loadData (Map.empty(''companies.json'' \<mapsto> Readable (Parses (JObj
       [(''nextId'', JNum 0), (''items'', JArr [])]))))
     ''companies.json'' \<lparr>nextId = JNum 1, items = JArr []\<rparr>
   \<noteq> \<lparr>nextId = JNum 0, items = JArr []\<rparr>"
  by (simp add: loadData_def loadData_try_def readFileSync_def js_or_def)

text \<open>
  C2, as amended. Loading after saving restores every store state whose counter is
  not 0 and whose records are JSON values. After three successful \<open>POST\<close>s of
  companies on the server that \<open>boot\<close> builds from an empty data directory, a restart
  succeeds, \<open>GET /api/companies\<close> answers with exactly the three records that the
  \<open>POST\<close>s answered with, their ids are 1, 2 and 3, and the next company gets the id 4.
\<close>

theorem save_load_roundtrip:
  assumes p1: "status (fst (post_companies r1 server0)) = 201"
    and p2: "status (fst (post_companies r2 (snd (post_companies r1 server0)))) = 201"
    and p3: "status (fst (post_companies r3
               (snd (post_companies r2 (snd (post_companies r1 server0)))))) = 201"
    and j: "is_json (body r1)" "is_json (body r2)" "is_json (body r3)"
    and q: "query rq ''category'' = None"
  shows "(n \<noteq> 0 \<and> are_json xs \<longrightarrow>
            loadData (saveData f \<lparr>nextId = JNum n, items = JArr xs\<rparr> d) f dflt
              = \<lparr>nextId = JNum n, items = JArr xs\<rparr>)
     \<and> (\<exists>s4. restart (snd (post_companies r3
               (snd (post_companies r2 (snd (post_companies r1 server0)))))) = Some s4
          \<and> fst (get_companies rq s4)
              = reply 200 (JObj [(''companies'', JArr
                  [record_of Companies (fst (post_companies r1 server0)),
                   record_of Companies (fst (post_companies r2 (snd (post_companies r1 server0)))),
                   record_of Companies (fst (post_companies r3
                     (snd (post_companies r2 (snd (post_companies r1 server0))))))])])
          \<and> map (\<lambda>c. get c ''id'') (companies s4) = [JNum 1, JNum 2, JNum 3]
          \<and> nextCompanyId s4 = 4
          \<and> (status (fst (post_companies r4 s4)) = 201
               \<longrightarrow> get (record_of Companies (fst (post_companies r4 s4))) ''id'' = JNum 4))"
proof -
  let ?s1 = "snd (post_companies r1 server0)"
  let ?s2 = "snd (post_companies r2 ?s1)"
  let ?s3 = "snd (post_companies r3 ?s2)"
  let ?c1 = "record_of Companies (fst (post_companies r1 server0))"
  let ?c2 = "record_of Companies (fst (post_companies r2 ?s1))"
  let ?c3 = "record_of Companies (fst (post_companies r3 ?s2))"
  have general: "n \<noteq> 0 \<and> are_json xs \<longrightarrow>
            loadData (saveData f \<lparr>nextId = JNum n, items = JArr xs\<rparr> d) f dflt
              = \<lparr>nextId = JNum n, items = JArr xs\<rparr>"
    by (simp add: save_load)
  note a1 = post_companies_201 [OF p1]
  note a2 = post_companies_201 [OF p2]
  note a3 = post_companies_201 [OF p3]
  have z: "nextCompanyId server0 = 1" "companies server0 = []" "files server0 = Map.empty"
    by (simp_all add: server0_def)
  have n1: "nextCompanyId ?s1 = 2" and cs1: "companies ?s1 = [?c1]"
    and f1: "files ?s1 = saveData ''companies.json''
       \<lparr>nextId = JNum 2, items = JArr [?c1]\<rparr> Map.empty"
    by (simp_all add: a1(1) z)
  have n2: "nextCompanyId ?s2 = 3" and cs2: "companies ?s2 = [?c1, ?c2]"
    and f2: "files ?s2 = saveData ''companies.json''
       \<lparr>nextId = JNum 3, items = JArr [?c1, ?c2]\<rparr> (files ?s1)"
    using n1 cs1 by (simp_all add: a2(1))
  have n3: "nextCompanyId ?s3 = 4" and cs3: "companies ?s3 = [?c1, ?c2, ?c3]"
    and f3: "files ?s3 = saveData ''companies.json''
       \<lparr>nextId = JNum 4, items = JArr [?c1, ?c2, ?c3]\<rparr> (files ?s2)"
    using n2 cs2 by (simp_all add: a3(1))
  have js: "is_json ?c1" "is_json ?c2" "is_json ?c3"
    using a1(3) a2(3) a3(3) j by simp_all
  have ids: "get ?c1 ''id'' = JNum 1" "get ?c2 ''id'' = JNum 2" "get ?c3 ''id'' = JNum 3"
    using a1(2) a2(2) a3(2) n1 n2 z by simp_all
  have lc: "loadData (files ?s3) ''companies.json'' defaults0
      = \<lparr>nextId = JNum 4, items = JArr [?c1, ?c2, ?c3]\<rparr>"
    unfolding f3 using js by (simp add: save_load)
  have lo: "\<And>g. g \<noteq> ''companies.json'' \<Longrightarrow> loadData (files ?s3) g defaults0 = defaults0"
    unfolding f3 f2 f1 by (simp add: load_other load_missing)
  define s4 where "s4 = server0\<lparr>nextCompanyId := 4, companies := [?c1, ?c2, ?c3],
      files := files ?s3\<rparr>"
  have lu: "loadData (files ?s3) ''users.json'' defaults0 = defaults0"
    and la: "loadData (files ?s3) ''classifieds.json'' defaults0 = defaults0"
    and lv: "loadData (files ?s3) ''vacancies.json'' defaults0 = defaults0"
    and lp: "loadData (files ?s3) ''realEstate.json'' defaults0 = defaults0"
    by (rule lo, simp)+
  have "boot (files ?s3) = Some s4"
    unfolding boot_def lc lu la lv lp Let_def
    by (simp add: defaults0_def s4_def server0_def)
  then have r: "restart ?s3 = Some s4"
    by (simp only: restart_def)
  have g: "fst (get_companies rq s4) = reply 200 (JObj [(''companies'', JArr [?c1, ?c2, ?c3])])"
    using q by (simp add: get_companies_def s4_def Let_def)
  have m: "map (\<lambda>c. get c ''id'') (companies s4) = [JNum 1, JNum 2, JNum 3]"
    using ids by (simp add: s4_def)
  have k: "nextCompanyId s4 = 4" by (simp add: s4_def)
  have nx: "status (fst (post_companies r4 s4)) = 201
               \<longrightarrow> get (record_of Companies (fst (post_companies r4 s4))) ''id'' = JNum 4"
    using post_companies_201(2) [of r4 s4] k by simp
  show ?thesis
    by (intro conjI exI [of _ s4]) (rule general r g m k nx)+
qed

theorem save_load_roundtrip_witness:
  "status (fst (post_companies (request0\<lparr>body := firm ''One''\<rparr>) server0)) = 201
   \<and> is_json (body (request0\<lparr>body := firm ''One''\<rparr>))
   \<and> loadData (saveData ''companies.json'' \<lparr>nextId = JNum 4, items = JArr [JNull]\<rparr> Map.empty)
         ''companies.json'' defaults0 = \<lparr>nextId = JNum 4, items = JArr [JNull]\<rparr>
   \<and> map_option (\<lambda>s. map (\<lambda>c. get c ''id'') (companies s)) (restart server_firms)
       = Some [JNum 1, JNum 2, JNum 3]
   \<and> map_option (\<lambda>s. map (\<lambda>c. get c ''name'') (companies s)) (restart server_firms)
       = Some [JStr ''One'', JStr ''Two'', JStr ''Three'']
   \<and> map_option nextCompanyId (restart server_firms) = Some 4
   \<and> map_option (\<lambda>s. get (record_of Companies
          (fst (post_companies (request0\<lparr>body := firm ''Four''\<rparr>) s))) ''id'')
        (restart server_firms) = Some (JNum 4)"
proof -
  let ?r1 = "request0\<lparr>body := firm ''One''\<rparr>"
  let ?r2 = "request0\<lparr>body := firm ''Two''\<rparr>"
  let ?r3 = "request0\<lparr>body := firm ''Three''\<rparr>"
  let ?r4 = "request0\<lparr>body := firm ''Four''\<rparr>"
  let ?s1 = "snd (post_companies ?r1 server0)"
  let ?s2 = "snd (post_companies ?r2 ?s1)"
  let ?s3 = "snd (post_companies ?r3 ?s2)"
  have p1: "status (fst (post_companies ?r1 server0)) = 201" by code_simp
  have p2: "status (fst (post_companies ?r2 ?s1)) = 201" by code_simp
  have p3: "status (fst (post_companies ?r3 ?s2)) = 201" by code_simp
  have j: "is_json (body ?r1)" "is_json (body ?r2)" "is_json (body ?r3)" by code_simp+
  have q: "query request0 ''category'' = None" by (simp add: request0_def)
  have sf: "server_firms = ?s3" by (simp add: server_firms_def)
  have names: "map (\<lambda>c. get c ''name'')
      [record_of Companies (fst (post_companies ?r1 server0)),
       record_of Companies (fst (post_companies ?r2 ?s1)),
       record_of Companies (fst (post_companies ?r3 ?s2))]
      = [JStr ''One'', JStr ''Two'', JStr ''Three'']" by code_simp
  have p4: "\<And>s. nextCompanyId s = 4 \<Longrightarrow> status (fst (post_companies ?r4 s)) = 201"
    by (simp add: post_companies_def request0_def firm_def get_Cons Let_def status_reply)
  from save_load_roundtrip [OF p1 p2 p3 j q, where n = 4 and xs = "[JNull]"
      and f = "''companies.json''" and d = Map.empty and dflt = defaults0 and ?r4.0 = ?r4]
  obtain s4 where l: "loadData (saveData ''companies.json''
         \<lparr>nextId = JNum 4, items = JArr [JNull]\<rparr> Map.empty)
         ''companies.json'' defaults0 = \<lparr>nextId = JNum 4, items = JArr [JNull]\<rparr>"
    and r: "restart ?s3 = Some s4"
    and g: "fst (get_companies request0 s4) = reply 200 (JObj [(''companies'', JArr
                  [record_of Companies (fst (post_companies ?r1 server0)),
                   record_of Companies (fst (post_companies ?r2 ?s1)),
                   record_of Companies (fst (post_companies ?r3 ?s2))])])"
    and m: "map (\<lambda>c. get c ''id'') (companies s4) = [JNum 1, JNum 2, JNum 3]"
    and k: "nextCompanyId s4 = 4"
    and nx: "status (fst (post_companies ?r4 s4)) = 201
               \<longrightarrow> get (record_of Companies (fst (post_companies ?r4 s4))) ''id'' = JNum 4"
    by auto
  have cs: "JArr (companies s4) = JArr
                  [record_of Companies (fst (post_companies ?r1 server0)),
                   record_of Companies (fst (post_companies ?r2 ?s1)),
                   record_of Companies (fst (post_companies ?r3 ?s2))]"
    using g q by (simp add: get_companies_def Let_def reply_def)
  have nm: "map (\<lambda>c. get c ''name'') (companies s4) = [JStr ''One'', JStr ''Two'', JStr ''Three'']"
    using cs names by simp
  have i4: "get (record_of Companies (fst (post_companies ?r4 s4))) ''id'' = JNum 4"
    using nx p4 [OF k] by simp
  show ?thesis using p1 j(1) l r m nm k i4 sf by simp
qed

text \<open>
  C2 as stated fails on a store whose counter is 0: \<open>saveData\<close> writes the 0 and
  \<open>loadData\<close> reads the default 1. Such a store is reached from a companies file with
  the counter \<open>-1\<close> by one \<open>POST\<close>; the restart after it moves the counter from 0 to 1.
\<close>

theorem save_load_zero_counter_counterexample:
  "loadData (saveData ''companies.json'' \<lparr>nextId = JNum 0, items = JArr []\<rparr> Map.empty)
      ''companies.json'' \<lparr>nextId = JNum 1, items = JArr []\<rparr>
     \<noteq> \<lparr>nextId = JNum 0, items = JArr []\<rparr>
   \<and> map_option nextCompanyId (boot disk_minus_one) = Some (- 1)
   \<and> map_option (\<lambda>s. nextCompanyId (snd (post_companies (request0\<lparr>body := firm ''One''\<rparr>) s)))
        (boot disk_minus_one) = Some 0
   \<and> Option.bind (boot disk_minus_one)
        (\<lambda>s. map_option nextCompanyId
               (restart (snd (post_companies (request0\<lparr>body := firm ''One''\<rparr>) s))))
       = Some 1"
  by code_simp

section \<open>Updates\<close>

text \<open>
  C9. Frame property of \<open>PUT\<close>, for every resource type: a successful \<open>PUT\<close> on the id
  \<open>X\<close> replaces the addressed record in place; the record keeps its \<open>id\<close> and its
  \<open>dateCreated\<close>; every record whose id is not \<open>X\<close> is unchanged, as are the
  collections of the other resource types; and a \<open>GET\<close> of any other id answers the
  same before and after.
\<close>

theorem put_frame:
  assumes ok: "status (fst (handle (Put r) req s)) = 200"
  shows "\<exists>i old. target r req s = Some (i, old)
     \<and> get (record_of r (fst (handle (Put r) req s))) ''id'' = get old ''id''
     \<and> get (record_of r (fst (handle (Put r) req s))) ''dateCreated'' = get old ''dateCreated''
     \<and> collection r (snd (handle (Put r) req s))
          = (collection r s)[i := record_of r (fst (handle (Put r) req s))]
     \<and> (\<forall>j < length (collection r s).
            \<not> strict_eq_num (get (collection r s ! j) ''id'') (parseInt (id_param req))
            \<longrightarrow> collection r (snd (handle (Put r) req s)) ! j = collection r s ! j)
     \<and> (\<forall>r'. r' \<noteq> r \<longrightarrow> collection r' (snd (handle (Put r) req s)) = collection r' s)
     \<and> (\<forall>req'. parseInt (id_param req') \<noteq> parseInt (id_param req)
            \<longrightarrow> fst (handle (GetOne r) req' (snd (handle (Put r) req s)))
                = fst (handle (GetOne r) req' s))"
proof -
  from put_200_target [OF ok] obtain i old where t: "target r req s = Some (i, old)" by blast
  let ?new = "record_of r (fst (handle (Put r) req s))"
  let ?s' = "snd (handle (Put r) req s)"
  note f = targetD [OF t]
  from find_js_SomeD [OF f] have i: "i < length (collection r s)"
    and old: "old = collection r s ! i"
    and hid: "has_id (parseInt (id_param req)) old = Inr True" by auto
  from has_id_TrueD [OF hid] obtain kvs v where o: "old = JObj kvs"
    and idv: "map_of kvs ''id'' = Some (JNum v)" and pv: "parseInt (id_param req) = Fin v"
    by blast
  have c: "collection r ?s' = (collection r s)[i := ?new]" by (rule put_target(2) [OF t])
  have idn: "get ?new ''id'' = get old ''id''" by (rule put_target(6) [OF t])
  have obj: "is_object ?new" by (rule put_target(5) [OF t])
  have others: "\<forall>j < length (collection r s).
      \<not> strict_eq_num (get (collection r s ! j) ''id'') (parseInt (id_param req))
      \<longrightarrow> collection r ?s' ! j = collection r s ! j"
  proof (intro allI impI)
    fix j assume "j < length (collection r s)"
      and n: "\<not> strict_eq_num (get (collection r s ! j) ''id'') (parseInt (id_param req))"
    have gi: "get old ''id'' = JNum v" using o idv by (simp add: get_def)
    have "j \<noteq> i"
    proof
      assume "j = i"
      with n old gi pv show False by simp
    qed
    then show "collection r ?s' ! j = collection r s ! j" using c by simp
  qed
  have gets: "\<forall>req'. parseInt (id_param req') \<noteq> parseInt (id_param req)
            \<longrightarrow> fst (handle (GetOne r) req' ?s') = fst (handle (GetOne r) req' s)"
  proof (intro allI impI)
    fix req' :: request assume ne: "parseInt (id_param req') \<noteq> parseInt (id_param req)"
    have "has_id (parseInt (id_param req')) ?new = has_id (parseInt (id_param req')) old"
      using has_id_cong [OF obj _ idn] o by simp
    from find_js_update_other [OF f this ne]
    have "find_js (has_id (parseInt (id_param req'))) (collection r ?s')
          = find_js (has_id (parseInt (id_param req'))) (collection r s)"
      using c by simp
    then show "fst (handle (GetOne r) req' ?s') = fst (handle (GetOne r) req' s)"
      by (cases r)
         (auto intro!: get_classified_cong get_vacancy_cong get_company_cong get_property_cong)
  qed
  have dc: "get ?new ''dateCreated'' = get old ''dateCreated''" by (rule put_target(7) [OF t])
  have rest: "\<forall>r'. r' \<noteq> r \<longrightarrow> collection r' ?s' = collection r' s"
    using put_target(4) [OF t] by simp
  show ?thesis
    by (intro exI [of _ i] exI [of _ old] conjI) (rule t idn dc c others rest gets)+
qed

theorem put_frame_witness:
  "status (fst (handle (Put Vacancies)
      (request0\<lparr>id_param := ''1'', body := JObj [(''title'', JStr ''Lead''), (''id'', JNum 7)]\<rparr>)
      server_jobs)) = 200
   \<and> get (record_of Vacancies (fst (handle (Put Vacancies)
      (request0\<lparr>id_param := ''1'', body := JObj [(''title'', JStr ''Lead''), (''id'', JNum 7)]\<rparr>)
      server_jobs))) ''id'' = JNum 1
   \<and> get (record_of Vacancies (fst (handle (Put Vacancies)
      (request0\<lparr>id_param := ''1'', body := JObj [(''title'', JStr ''Lead''), (''id'', JNum 7)]\<rparr>)
      server_jobs))) ''dateCreated'' = JStr ''2024-01-01T00:00:00.000Z''
   \<and> vacancies (snd (handle (Put Vacancies)
      (request0\<lparr>id_param := ''1'', body := JObj [(''title'', JStr ''Lead''), (''id'', JNum 7)]\<rparr>)
      server_jobs)) ! 1 = vacancies server_jobs ! 1
   \<and> fst (handle (GetOne Vacancies) (request0\<lparr>id_param := ''2''\<rparr>)
        (snd (handle (Put Vacancies)
          (request0\<lparr>id_param := ''1'', body := JObj [(''title'', JStr ''Lead''), (''id'', JNum 7)]\<rparr>)
          server_jobs)))
       = fst (handle (GetOne Vacancies) (request0\<lparr>id_param := ''2''\<rparr>) server_jobs)
   \<and> collection Companies (snd (handle (Put Vacancies)
      (request0\<lparr>id_param := ''1'', body := JObj [(''title'', JStr ''Lead''), (''id'', JNum 7)]\<rparr>)
      server_jobs)) = collection Companies server_jobs"
proof -
  let ?req = "request0\<lparr>id_param := ''1'', body := JObj [(''title'', JStr ''Lead''), (''id'', JNum 7)]\<rparr>"
  let ?get = "request0\<lparr>id_param := ''2''\<rparr>"
  have ok: "status (fst (handle (Put Vacancies) ?req server_jobs)) = 200" by code_simp
  have t: "target Vacancies ?req server_jobs = Some (0, vacancies server_jobs ! 0)" by code_simp
  have id0: "get (vacancies server_jobs ! 0) ''id'' = JNum 1" by code_simp
  have dc0: "get (vacancies server_jobs ! 0) ''dateCreated'' = JStr ''2024-01-01T00:00:00.000Z''"
    by code_simp
  have len: "1 < length (collection Vacancies server_jobs)" by code_simp
  have other: "\<not> strict_eq_num (get (collection Vacancies server_jobs ! 1) ''id'')
      (parseInt (id_param ?req))" by code_simp
  have ne: "parseInt (id_param ?get) \<noteq> parseInt (id_param ?req)" by code_simp
  have rr: "Companies \<noteq> Vacancies" by simp
  from put_frame [OF ok] t id0 dc0 len other ne rr
  show ?thesis using ok by auto
qed

text \<open>
  C10. For every resource type and each of its required fields, a successful \<open>PUT\<close>
  whose body gives a falsy value for the field (the empty string, 0, \<open>null\<close>, \<open>false\<close>,
  or nothing at all) leaves the field as it was, and a truthy value overwrites it.
\<close>

theorem put_required_field:
  assumes ok: "status (fst (handle (Put r) req s)) = 200"
    and k: "k \<in> set (required_fields r)"
  shows "\<exists>i old. target r req s = Some (i, old)
     \<and> collection r (snd (handle (Put r) req s)) ! i = record_of r (fst (handle (Put r) req s))
     \<and> (\<not> truthy (get (body req) k)
          \<longrightarrow> get (record_of r (fst (handle (Put r) req s))) k = get old k)
     \<and> (truthy (get (body req) k)
          \<longrightarrow> get (record_of r (fst (handle (Put r) req s))) k = get (body req) k)"
proof -
  from put_200_target [OF ok] obtain i old where t: "target r req s = Some (i, old)" by blast
  from find_js_SomeD [OF targetD [OF t]] have i: "i < length (collection r s)" by simp
  let ?new = "record_of r (fst (handle (Put r) req s))"
  have a: "collection r (snd (handle (Put r) req s)) ! i = ?new"
    using i put_target(2) [OF t] by simp
  have b: "get ?new k = js_or (get (body req) k) (get old k)" by (rule put_target(8) [OF t k])
  have c: "\<not> truthy (get (body req) k) \<longrightarrow> get ?new k = get old k"
    using b by (simp add: js_or_def)
  have d: "truthy (get (body req) k) \<longrightarrow> get ?new k = get (body req) k"
    using b by (simp add: js_or_def)
  show ?thesis
    by (intro exI [of _ i] exI [of _ old] conjI) (rule t a c d)+
qed

theorem put_required_field_witness:
  "status (fst (handle (Put Vacancies)
      (request0\<lparr>id_param := ''1'',
         body := JObj [(''title'', JStr ''''), (''company'', JStr ''Gamma'')]\<rparr>) server_jobs)) = 200
   \<and> get (record_of Vacancies (fst (handle (Put Vacancies)
      (request0\<lparr>id_param := ''1'',
         body := JObj [(''title'', JStr ''''), (''company'', JStr ''Gamma'')]\<rparr>) server_jobs)))
       ''title'' = JStr ''Engineer''
   \<and> get (record_of Vacancies (fst (handle (Put Vacancies)
      (request0\<lparr>id_param := ''1'',
         body := JObj [(''title'', JStr ''''), (''company'', JStr ''Gamma'')]\<rparr>) server_jobs)))
       ''company'' = JStr ''Gamma''"
proof -
  let ?req = "request0\<lparr>id_param := ''1'',
         body := JObj [(''title'', JStr ''''), (''company'', JStr ''Gamma'')]\<rparr>"
  have ok: "status (fst (handle (Put Vacancies) ?req server_jobs)) = 200" by code_simp
  have t: "target Vacancies ?req server_jobs = Some (0, vacancies server_jobs ! 0)" by code_simp
  have old: "get (vacancies server_jobs ! 0) ''title'' = JStr ''Engineer''" by code_simp
  have k1: "''title'' \<in> set (required_fields Vacancies)" by simp
  have k2: "''company'' \<in> set (required_fields Vacancies)" by simp
  have f: "\<not> truthy (get (body ?req) ''title'')" by code_simp
  have g: "truthy (get (body ?req) ''company'')" by code_simp
  have gv: "get (body ?req) ''company'' = JStr ''Gamma''" by code_simp
  from put_required_field [OF ok k1] t old f
  have a: "get (record_of Vacancies (fst (handle (Put Vacancies) ?req server_jobs))) ''title''
      = JStr ''Engineer''" by auto
  from put_required_field [OF ok k2] g gv
  have b: "get (record_of Vacancies (fst (handle (Put Vacancies) ?req server_jobs))) ''company''
      = JStr ''Gamma''" by auto
  show ?thesis using ok a b by simp
qed

text \<open>
  C3. A successful \<open>PUT\<close> on a classified whose body has no \<open>price\<close> leaves the price
  as it was; a body with the price 0 sets the price to 0; and so does any price that is
  present (not \<open>undefined\<close>).
\<close>

theorem put_classified_price:
  assumes ok: "status (fst (put_classified req s)) = 200"
  shows "\<exists>i ad. target Classifieds req s = Some (i, ad)
     \<and> classifieds (snd (put_classified req s)) ! i
          = record_of Classifieds (fst (put_classified req s))
     \<and> (get (body req) ''price'' = JUndefined
          \<longrightarrow> get (record_of Classifieds (fst (put_classified req s))) ''price'' = get ad ''price'')
     \<and> (get (body req) ''price'' = JNum 0
          \<longrightarrow> get (record_of Classifieds (fst (put_classified req s))) ''price'' = JNum 0)
     \<and> (get (body req) ''price'' \<noteq> JUndefined
          \<longrightarrow> get (record_of Classifieds (fst (put_classified req s))) ''price''
              = get (body req) ''price'')"
proof -
  from put_classified_200 [OF ok] obtain i ad
    where f: "find_js (has_id (parseInt (id_param req))) (classifieds s) = Inr (Some (i, ad))"
    by blast
  let ?new = "record_of Classifieds (fst (put_classified req s))"
  have t: "target Classifieds req s = Some (i, ad)" using f by (simp add: target_def)
  from find_js_SomeD [OF f] have i: "i < length (classifieds s)" by simp
  note p = put_classified_found [OF f, folded singular.simps(1) record_of_def]
  have a: "classifieds (snd (put_classified req s)) ! i = ?new"
    using p i by (simp add: record_of_def)
  have pr: "get ?new ''price'' = (if defined (get (body req) ''price'')
      then get (body req) ''price'' else get ad ''price'')"
    using p by (simp add: record_of_def)
  have b: "get (body req) ''price'' = JUndefined \<longrightarrow> get ?new ''price'' = get ad ''price''"
    using pr by simp
  have c: "get (body req) ''price'' = JNum 0 \<longrightarrow> get ?new ''price'' = JNum 0"
    using pr by simp
  have d: "get (body req) ''price'' \<noteq> JUndefined
      \<longrightarrow> get ?new ''price'' = get (body req) ''price''"
    using pr by (cases "get (body req) ''price''") simp_all
  show ?thesis
    by (intro exI [of _ i] exI [of _ ad] conjI) (rule t a b c d)+
qed

theorem put_classified_price_witness:
  "get (classifieds server_ad ! 0) ''price'' = JNum 100
   \<and> status (fst (put_classified
        (request0\<lparr>id_param := ''1'', body := JObj [(''title'', JStr ''New'')]\<rparr>) server_ad)) = 200
   \<and> get (record_of Classifieds (fst (put_classified
        (request0\<lparr>id_param := ''1'', body := JObj [(''title'', JStr ''New'')]\<rparr>) server_ad)))
        ''price'' = JNum 100
   \<and> status (fst (put_classified
        (request0\<lparr>id_param := ''1'', body := JObj [(''price'', JNum 0)]\<rparr>) server_ad)) = 200
   \<and> get (record_of Classifieds (fst (put_classified
        (request0\<lparr>id_param := ''1'', body := JObj [(''price'', JNum 0)]\<rparr>) server_ad)))
        ''price'' = JNum 0"
proof -
  let ?r1 = "request0\<lparr>id_param := ''1'', body := JObj [(''title'', JStr ''New'')]\<rparr>"
  let ?r2 = "request0\<lparr>id_param := ''1'', body := JObj [(''price'', JNum 0)]\<rparr>"
  have p: "get (classifieds server_ad ! 0) ''price'' = JNum 100" by code_simp
  have ok1: "status (fst (put_classified ?r1 server_ad)) = 200" by code_simp
  have ok2: "status (fst (put_classified ?r2 server_ad)) = 200" by code_simp
  have t1: "target Classifieds ?r1 server_ad = Some (0, classifieds server_ad ! 0)" by code_simp
  have b1: "get (body ?r1) ''price'' = JUndefined" by code_simp
  have b2: "get (body ?r2) ''price'' = JNum 0" by code_simp
  from put_classified_price [OF ok1] t1 b1 p
  have a: "get (record_of Classifieds (fst (put_classified ?r1 server_ad))) ''price'' = JNum 100"
    by auto
  from put_classified_price [OF ok2] b2
  have b: "get (record_of Classifieds (fst (put_classified ?r2 server_ad))) ''price'' = JNum 0"
    by auto
  show ?thesis using p ok1 ok2 a b by simp
qed

section \<open>Identifiers\<close>



section \<open>Creation\<close>

text \<open>
  C8, on the code. \<open>authenticate\<close> lets a request through whose \<open>Authorization\<close> header is
  the name of a property of \<open>Object.prototype\<close> (\<open>constructor\<close>, \<open>toString\<close>, ...),
  although no session was ever created under that name: with a complete body the ad is
  stored without an owner, the counter advances and the answer is 201. (For a header
  that is absent, empty, or neither a session token nor such a name, the answer is 401
  and nothing changes: lemma \<open>post_classifieds_unauthorized\<close>.)
\<close>

theorem post_classifieds_inherited_name:
  assumes a: "authorization req = Some t" and t: "t \<in> set object_prototype_names"
    and n: "sessions s t = None"
    and b: "truthy (get (body req) ''title'')" "truthy (get (body req) ''description'')"
      "truthy (get (body req) ''category'')"
  shows "status (fst (post_classifieds req s)) = 201
     \<and> classifieds (snd (post_classifieds req s))
         = classifieds s @ [record_of Classifieds (fst (post_classifieds req s))]
     \<and> nextAdId (snd (post_classifieds req s)) = nextAdId s + 1
     \<and> get (record_of Classifieds (fst (post_classifieds req s))) ''owner'' = JUndefined"
proof -
  have "authenticate req s = Inr (JNative t)"
    using a t n prototype_name_nonempty [OF t]
    by (simp add: authenticate_def sessions_at_def)
  then show ?thesis using b
    by (simp add: post_classifieds_def Let_def status_reply record_of_def get_Cons get_def)
qed

theorem post_classifieds_inherited_name_witness:
  "authorization (request0\<lparr>authorization := Some ''constructor'', body := bike\<rparr>)
     = Some ''constructor''
   \<and> sessions server0 ''constructor'' = None
   \<and> status (fst (post_classifieds
        (request0\<lparr>authorization := Some ''constructor'', body := bike\<rparr>) server0)) = 201
   \<and> length (classifieds (snd (post_classifieds
        (request0\<lparr>authorization := Some ''constructor'', body := bike\<rparr>) server0))) = 1
   \<and> nextAdId (snd (post_classifieds
        (request0\<lparr>authorization := Some ''constructor'', body := bike\<rparr>) server0)) = 2"
proof -
  let ?req = "request0\<lparr>authorization := Some ''constructor'', body := bike\<rparr>"
  have a: "authorization ?req = Some ''constructor''" by simp
  have t: "''constructor'' \<in> set object_prototype_names" by (simp add: object_prototype_names_def)
  have n: "sessions server0 ''constructor'' = None" by (simp add: server0_def)
  have b: "truthy (get (body ?req) ''title'')" "truthy (get (body ?req) ''description'')"
      "truthy (get (body ?req) ''category'')" by code_simp+
  have z: "classifieds server0 = []" "nextAdId server0 = 1" by (simp_all add: server0_def)
  from post_classifieds_inherited_name [OF a t n b] z
  show ?thesis using a n by simp
qed

text \<open>
  C4, on the code. What a successful \<open>POST\<close> stores in the optional fields: the
  \<open>location\<close> of a property is stored only when it is truthy, and so is the \<open>price\<close>
  of a classified in the in-memory server; an explicit 0, empty string or \<open>false\<close>
  there becomes \<open>null\<close>. The \<open>price\<close> of a property, the \<open>price\<close> of a classified in
  the persisted server, the \<open>salary\<close> and the \<open>rating\<close> are stored whenever they are
  present, 0 included.
\<close>

theorem post_optional_fields:
  "(status (fst (post_realEstate req s)) = 201 \<longrightarrow>
       get (record_of RealEstate (fst (post_realEstate req s))) ''location''
         = (if truthy (get (body req) ''location'') then get (body req) ''location'' else JNull)
     \<and> get (record_of RealEstate (fst (post_realEstate req s))) ''price''
         = (if defined (get (body req) ''price'') then get (body req) ''price'' else JNull))
   \<and> (status (fst (post_classifieds_mem req s)) = 201 \<longrightarrow>
       get (record_of Classifieds (fst (post_classifieds_mem req s))) ''price''
         = (if truthy (get (body req) ''price'') then get (body req) ''price'' else JNull))
   \<and> (status (fst (post_classifieds req s)) = 201 \<longrightarrow>
       get (record_of Classifieds (fst (post_classifieds req s))) ''price''
         = (if defined (get (body req) ''price'') then get (body req) ''price'' else JNull))
   \<and> (status (fst (post_vacancies req s)) = 201 \<longrightarrow>
       get (record_of Vacancies (fst (post_vacancies req s))) ''salary''
         = (if defined (get (body req) ''salary'') then get (body req) ''salary'' else JNull))
   \<and> (status (fst (post_companies req s)) = 201 \<longrightarrow>
       get (record_of Companies (fst (post_companies req s))) ''rating''
         = (if defined (get (body req) ''rating'') then get (body req) ''rating'' else JNull))"
proof (intro conjI impI)
  assume "status (fst (post_realEstate req s)) = 201"
  then show "get (record_of RealEstate (fst (post_realEstate req s))) ''location''
         = (if truthy (get (body req) ''location'') then get (body req) ''location'' else JNull)"
    and "get (record_of RealEstate (fst (post_realEstate req s))) ''price''
         = (if defined (get (body req) ''price'') then get (body req) ''price'' else JNull)"
    by (auto simp: post_realEstate_def Let_def status_reply record_of_def get_Cons js_or_def
          split: if_splits)
next
  assume "status (fst (post_classifieds_mem req s)) = 201"
  then show "get (record_of Classifieds (fst (post_classifieds_mem req s))) ''price''
         = (if truthy (get (body req) ''price'') then get (body req) ''price'' else JNull)"
    by (auto simp: post_classifieds_mem_def Let_def status_reply record_of_def get_Cons js_or_def
          split: if_splits)
next
  assume "status (fst (post_classifieds req s)) = 201"
  then show "get (record_of Classifieds (fst (post_classifieds req s))) ''price''
         = (if defined (get (body req) ''price'') then get (body req) ''price'' else JNull)"
    by (auto simp: post_classifieds_def Let_def status_reply record_of_def get_Cons
          split: if_splits sum.splits dest: authenticate_Inl)
next
  assume "status (fst (post_vacancies req s)) = 201"
  then show "get (record_of Vacancies (fst (post_vacancies req s))) ''salary''
         = (if defined (get (body req) ''salary'') then get (body req) ''salary'' else JNull)"
    by (auto simp: post_vacancies_def Let_def status_reply record_of_def get_Cons
          split: if_splits)
next
  assume "status (fst (post_companies req s)) = 201"
  then show "get (record_of Companies (fst (post_companies req s))) ''rating''
         = (if defined (get (body req) ''rating'') then get (body req) ''rating'' else JNull)"
    by (auto simp: post_companies_def Let_def status_reply record_of_def get_Cons
          split: if_splits)
qed

theorem post_optional_fields_witness:
  "status (fst (post_realEstate (request0\<lparr>body := JObj [(''type'', JStr ''House''),
       (''title'', JStr ''For sale''), (''description'', JStr ''Quiet street''),
       (''price'', JNum 0), (''location'', JNum 0)]\<rparr>) server0)) = 201
   \<and> get (record_of RealEstate (fst (post_realEstate (request0\<lparr>body := JObj [(''type'', JStr ''House''),
       (''title'', JStr ''For sale''), (''description'', JStr ''Quiet street''),
       (''price'', JNum 0), (''location'', JNum 0)]\<rparr>) server0))) ''location'' = JNull
   \<and> get (record_of RealEstate (fst (post_realEstate (request0\<lparr>body := JObj [(''type'', JStr ''House''),
       (''title'', JStr ''For sale''), (''description'', JStr ''Quiet street''),
       (''price'', JNum 0), (''location'', JNum 0)]\<rparr>) server0))) ''price'' = JNum 0
   \<and> status (fst (post_classifieds_mem (request0\<lparr>body := JObj [(''title'', JStr ''Bike''),
       (''description'', JStr ''Red''), (''category'', JStr ''sport''), (''price'', JNum 0)]\<rparr>)
       server0)) = 201
   \<and> get (record_of Classifieds (fst (post_classifieds_mem (request0\<lparr>body := JObj
       [(''title'', JStr ''Bike''), (''description'', JStr ''Red''), (''category'', JStr ''sport''),
        (''price'', JNum 0)]\<rparr>) server0))) ''price'' = JNull
   \<and> status (fst (post_classifieds (request0\<lparr>authorization := Some token0, body := JObj
       [(''title'', JStr ''Bike''), (''description'', JStr ''Red''), (''category'', JStr ''sport''),
        (''price'', JNum 0)]\<rparr>) server_ad)) = 201
   \<and> get (record_of Classifieds (fst (post_classifieds (request0\<lparr>authorization := Some token0,
       body := JObj [(''title'', JStr ''Bike''), (''description'', JStr ''Red''),
         (''category'', JStr ''sport''), (''price'', JNum 0)]\<rparr>) server_ad))) ''price'' = JNum 0
   \<and> status (fst (post_vacancies (request0\<lparr>body := JObj [(''title'', JStr ''Engineer''),
       (''company'', JStr ''Acme Corp''), (''description'', JStr ''Builds''),
       (''salary'', JNum 0)]\<rparr>) server0)) = 201
   \<and> get (record_of Vacancies (fst (post_vacancies (request0\<lparr>body := JObj
       [(''title'', JStr ''Engineer''), (''company'', JStr ''Acme Corp''),
        (''description'', JStr ''Builds''), (''salary'', JNum 0)]\<rparr>) server0))) ''salary'' = JNum 0
   \<and> status (fst (post_companies (request0\<lparr>body := JObj [(''name'', JStr ''One''),
       (''category'', JStr ''Services''), (''description'', JStr ''Open daily''),
       (''rating'', JNum 0)]\<rparr>) server0)) = 201
   \<and> get (record_of Companies (fst (post_companies (request0\<lparr>body := JObj
       [(''name'', JStr ''One''), (''category'', JStr ''Services''),
        (''description'', JStr ''Open daily''), (''rating'', JNum 0)]\<rparr>) server0))) ''rating''
       = JNum 0"
proof -
  let ?h = "request0\<lparr>body := JObj [(''type'', JStr ''House''),
       (''title'', JStr ''For sale''), (''description'', JStr ''Quiet street''),
       (''price'', JNum 0), (''location'', JNum 0)]\<rparr>"
  let ?b = "request0\<lparr>body := JObj [(''title'', JStr ''Bike''),
       (''description'', JStr ''Red''), (''category'', JStr ''sport''), (''price'', JNum 0)]\<rparr>"
  let ?a = "request0\<lparr>authorization := Some token0, body := JObj [(''title'', JStr ''Bike''),
       (''description'', JStr ''Red''), (''category'', JStr ''sport''), (''price'', JNum 0)]\<rparr>"
  let ?v = "request0\<lparr>body := JObj [(''title'', JStr ''Engineer''),
       (''company'', JStr ''Acme Corp''), (''description'', JStr ''Builds''),
       (''salary'', JNum 0)]\<rparr>"
  let ?c = "request0\<lparr>body := JObj [(''name'', JStr ''One''),
       (''category'', JStr ''Services''), (''description'', JStr ''Open daily''),
       (''rating'', JNum 0)]\<rparr>"
  have p: "status (fst (post_realEstate ?h server0)) = 201" by code_simp
  have m: "status (fst (post_classifieds_mem ?b server0)) = 201" by code_simp
  have pa: "status (fst (post_classifieds ?a server_ad)) = 201" by code_simp
  have pv: "status (fst (post_vacancies ?v server0)) = 201" by code_simp
  have pc: "status (fst (post_companies ?c server0)) = 201" by code_simp
  have l: "\<not> truthy (get (body ?h) ''location'')" by code_simp
  have pr: "get (body ?h) ''price'' = JNum 0" by code_simp
  have bp: "\<not> truthy (get (body ?b) ''price'')" by code_simp
  have ap: "get (body ?a) ''price'' = JNum 0" by code_simp
  have vs: "get (body ?v) ''salary'' = JNum 0" by code_simp
  have cr: "get (body ?c) ''rating'' = JNum 0" by code_simp
  from post_optional_fields [of ?h server0] p l pr
  have a: "get (record_of RealEstate (fst (post_realEstate ?h server0))) ''location'' = JNull"
    and b: "get (record_of RealEstate (fst (post_realEstate ?h server0))) ''price'' = JNum 0"
    by simp_all
  from post_optional_fields [of ?b server0] m bp
  have c: "get (record_of Classifieds (fst (post_classifieds_mem ?b server0))) ''price'' = JNull"
    by simp
  from post_optional_fields [of ?a server_ad] pa ap
  have d: "get (record_of Classifieds (fst (post_classifieds ?a server_ad))) ''price'' = JNum 0"
    by simp
  from post_optional_fields [of ?v server0] pv vs
  have e: "get (record_of Vacancies (fst (post_vacancies ?v server0))) ''salary'' = JNum 0"
    by simp
  from post_optional_fields [of ?c server0] pc cr
  have f: "get (record_of Companies (fst (post_companies ?c server0))) ''rating'' = JNum 0"
    by simp
  show ?thesis using p m pa pv pc a b c d e f by simp
qed

section \<open>Filters\<close>






end
